theory Spec2Isabelle
  imports
    Complex_Main
    "HOL-Library.Char_ord"
    "HOL-Library.List_Lexorder"
    "HOL-Library.Product_Lexorder"
begin

section \<open>Values shared by the three modules\<close>

subsection \<open>Python floats\<close>

text \<open>
  A Python \<^verbatim>\<open>float\<close> is a binary64 number: a finite value, one of the two infinities,
  or not-a-number. The finite values are read as the reals they denote. Every
  comparison with \<^verbatim>\<open>nan\<close> is false, so \<^verbatim>\<open>a <= b\<close> is not the negation of
  \<^verbatim>\<open>a > b\<close>.
\<close>

datatype pyfloat = Finite real | PosInf | NegInf | NaN

definition float_le :: "pyfloat \<Rightarrow> pyfloat \<Rightarrow> bool" where
  "float_le a b =
     (case (a, b) of
        (NaN, _) \<Rightarrow> False
      | (_, NaN) \<Rightarrow> False
      | (NegInf, _) \<Rightarrow> True
      | (_, PosInf) \<Rightarrow> True
      | (Finite x, Finite y) \<Rightarrow> x \<le> y
      | _ \<Rightarrow> False)"

definition float_lt :: "pyfloat \<Rightarrow> pyfloat \<Rightarrow> bool" where
  "float_lt a b =
     (case (a, b) of
        (NaN, _) \<Rightarrow> False
      | (_, NaN) \<Rightarrow> False
      | (PosInf, _) \<Rightarrow> False
      | (_, NegInf) \<Rightarrow> False
      | (Finite x, Finite y) \<Rightarrow> x < y
      | _ \<Rightarrow> True)"

definition float_gt :: "pyfloat \<Rightarrow> pyfloat \<Rightarrow> bool" where
  "float_gt a b = float_lt b a"

subsection \<open>Exceptions\<close>

text \<open>
  The exceptions that the modelled statements raise, with the message that names the
  missing key where Python gives one. A call that raises returns \<open>Inl\<close> of the
  exception; a call that returns normally returns \<open>Inr\<close> of its value.
\<close>

datatype py_error =
    KeyError string
  | AttributeError
  | ValueError
  | TypeError
  | IndexError

type_synonym 'a result = "py_error + 'a"

subsection \<open>Tables\<close>

text \<open>
  A pandas column is either an object column, holding strings and missing values
  (\<open>None\<close>), or a numeric column, holding floats with \<^verbatim>\<open>nan\<close> as the missing value
  (an integer column behaves like a numeric column in every operation used below).
  A \<^verbatim>\<open>DataFrame\<close> is the list of its labelled columns, in column order, over the
  default row index.
\<close>

datatype column = ObjCol "string option list" | FloatCol "pyfloat list"

type_synonym frame = "(string \<times> column) list"

text \<open>
  The state the library runs in: the tables that exist, addressed by position (a
  Python variable holding a \<^verbatim>\<open>DataFrame\<close> is a reference into \<open>frames\<close>), and the
  lines printed so far.
\<close>

record world =
  frames :: "frame list"
  stdout :: "string list"

definition print :: "string \<Rightarrow> world \<Rightarrow> world" where
  "print line w = w\<lparr>stdout := stdout w @ [line]\<rparr>"

fun print_all :: "string list \<Rightarrow> world \<Rightarrow> world" where
  "print_all [] w = w"
| "print_all (l # ls) w = print_all ls (print l w)"

section \<open>timeseries.py\<close>

text \<open>
  \<^verbatim>\<open>statsmodels.tsa.stattools.adfuller\<close> and \<^verbatim>\<open>kpss\<close> are external: the model takes
  them as parameters, functions from the table and the option string to either an
  exception or the tuple they return. The tuple of \<^verbatim>\<open>adfuller\<close> is
  \<^verbatim>\<open>(adfstat, pvalue, usedlag, nobs, critical values, icbest)\<close>, that of \<^verbatim>\<open>kpss\<close> is
  \<^verbatim>\<open>(kpss_stat, p_value, lags, critical values)\<close>. A critical-value dictionary is
  the list of its items in iteration order.
\<close>

record adf_result =
  adf_statistic :: pyfloat
  adf_p_value :: pyfloat
  adf_used_lag :: int
  adf_n_obs :: int
  adf_critical_values :: "(string \<times> pyfloat) list"
  adf_icbest :: pyfloat

record kpss_result =
  kpss_statistic :: pyfloat
  kpss_p_value :: pyfloat
  kpss_lags :: int
  kpss_critical_values :: "(string \<times> pyfloat) list"

text \<open>
  The literal \<^verbatim>\<open>0.05\<close> of both modules is the binary64 number nearest to one
  twentieth, \<open>3602879701896397 / 2 ^ 56\<close>.
\<close>

definition alpha :: pyfloat where
  "alpha = Finite (3602879701896397 / 72057594037927936)"

text \<open>
  \<^verbatim>\<open>for key, value in result[4].items(): print('Critial Values:'); print(f'   {key}, {value}')\<close>.
  The text of a float in an f-string is \<open>repr_float\<close>, a parameter.
\<close>

fun print_critical_values ::
  "(pyfloat \<Rightarrow> string) \<Rightarrow> (string \<times> pyfloat) list \<Rightarrow> world \<Rightarrow> world" where
  "print_critical_values repr_float [] w = w"
| "print_critical_values repr_float ((key, val) # items) w =
     print_critical_values repr_float items
       (print (''   '' @ key @ '', '' @ repr_float val) (print ''Critial Values:'' w))"

definition run_adfuller_test ::
  "(frame \<Rightarrow> string \<Rightarrow> adf_result result) \<Rightarrow> (pyfloat \<Rightarrow> string) \<Rightarrow>
   world \<Rightarrow> nat \<Rightarrow> string \<Rightarrow> world \<times> bool result" where
  "run_adfuller_test adfuller repr_float w timeseries auto_lag =
     (let w1 = print_all
            [''Results of Augmented Dickey-Fuller Test:'',
             ''Null Hypothesis: Unit Root Present (NON-STATIONARY)'',
             ''Test Statistic < Critical Value => Reject Null'',
             ''P-Value =< Alpha(.05) => Reject Null'', ''''] w
      in case adfuller (frames w1 ! timeseries) auto_lag of
           Inl e \<Rightarrow> (w1, Inl e)
         | Inr res \<Rightarrow>
             (let w2 = print (''ADF Statistic: '' @ repr_float (adf_statistic res)) w1;
                  p_value = adf_p_value res;
                  w3 = print (''p-value: '' @ repr_float p_value) w2;
                  w4 = print_critical_values repr_float (adf_critical_values res) w3
              in if float_le p_value alpha
                 then (print ''Reject the null hypothesis (H0). The data is STATIONARY.'' w4,
                       Inr True)
                 else (print
                         ''Fail to reject the null hypothesis (H0). The data is NON-STATIONARY.''
                         w4,
                       Inr False)))"

text \<open>
  A \<^verbatim>\<open>pandas.Series\<close> of floats with string labels: the list of its (label, value)
  items. \<open>series_setitem\<close> is \<^verbatim>\<open>s[label] = value\<close>, which overwrites the item of that
  label or appends a new one; \<open>series_getitem_pos\<close> is \<^verbatim>\<open>s[i]\<close> with an integer on a
  string-labelled series, which reads by position.
\<close>

type_synonym series = "(string \<times> pyfloat) list"

fun series_setitem :: "series \<Rightarrow> string \<Rightarrow> pyfloat \<Rightarrow> series" where
  "series_setitem [] label v = [(label, v)]"
| "series_setitem ((l, x) # items) label v =
     (if l = label then (l, v) # items else (l, x) # series_setitem items label v)"

definition series_getitem_pos :: "series \<Rightarrow> nat \<Rightarrow> pyfloat result" where
  "series_getitem_pos s i = (if i < length s then Inr (snd (s ! i)) else Inl IndexError)"

text \<open>
  \<^verbatim>\<open>for key, value in kpss_test[3].items(): kpss_output[f'Critical Value {key}'] = value\<close>
\<close>

fun add_critical_values :: "series \<Rightarrow> (string \<times> pyfloat) list \<Rightarrow> series" where
  "add_critical_values s [] = s"
| "add_critical_values s ((key, val) # items) =
     add_critical_values (series_setitem s (''Critical Value '' @ key) val) items"

definition float_of_int :: "int \<Rightarrow> pyfloat" where
  "float_of_int i = Finite (of_int i)"

definition run_kpss_test ::
  "(frame \<Rightarrow> string \<Rightarrow> kpss_result result) \<Rightarrow> (series \<Rightarrow> string) \<Rightarrow>
   world \<Rightarrow> nat \<Rightarrow> string \<Rightarrow> world \<times> bool result" where
  "run_kpss_test kpss repr_series w timeseries regression =
     (let w1 = print_all
            [''Results of KPSS Test:'',
             ''Null Hypothesis: Data is Stationary/Trend Stationary (STATIONARY)'',
             ''Test Statistic > Critical Value => Reject Null'',
             ''P-Value =< Alpha(.05) => Reject Null'', ''''] w
      in case kpss (frames w1 ! timeseries) regression of
           Inl e \<Rightarrow> (w1, Inl e)
         | Inr kpss_test \<Rightarrow>
             (let kpss_output0 =
                    [(''Test Statistic'', kpss_statistic kpss_test),
                     (''p-value'', kpss_p_value kpss_test),
                     (''Lags Used'', float_of_int (kpss_lags kpss_test))];
                  kpss_output = add_critical_values kpss_output0 (kpss_critical_values kpss_test);
                  w2 = print (repr_series kpss_output) w1
              in case series_getitem_pos kpss_output 1 of
                   Inl e \<Rightarrow> (w2, Inl e)
                 | Inr p_value \<Rightarrow>
                     if float_le p_value alpha
                     then (print
                             ''Reject the null hypothesis (H0). The data is NON-STATIONARY.'' w2,
                           Inr False)
                     else (print
                             ''Fail to reject the null hypothesis (H0). The data is STATIONARY.''
                             w2,
                           Inr True)))"

section \<open>Operations on tables\<close>

definition columns :: "frame \<Rightarrow> string list" where
  "columns df = map fst df"

definition column_length :: "column \<Rightarrow> nat" where
  "column_length c = (case c of ObjCol xs \<Rightarrow> length xs | FloatCol ys \<Rightarrow> length ys)"

fun nrows :: "frame \<Rightarrow> nat" where
  "nrows [] = 0"
| "nrows ((name, c) # cols) = column_length c"

text \<open>
  A well-formed table has distinct column labels and columns of one length, the number
  of rows.
\<close>

definition wf_frame :: "frame \<Rightarrow> bool" where
  "wf_frame df \<longleftrightarrow>
     distinct (columns df) \<and> list_all (\<lambda>(name, c). column_length c = nrows df) df"

text \<open>\<^verbatim>\<open>df[name]\<close> raises \<^verbatim>\<open>KeyError(name)\<close> when no column has that label.\<close>

definition getitem :: "frame \<Rightarrow> string \<Rightarrow> column result" where
  "getitem df name = (case map_of df name of None \<Rightarrow> Inl (KeyError name) | Some c \<Rightarrow> Inr c)"

text \<open>
  \<^verbatim>\<open>df[name] = c\<close> replaces the column of that label in place, or appends a new last
  column.
\<close>

fun setitem :: "frame \<Rightarrow> string \<Rightarrow> column \<Rightarrow> frame" where
  "setitem [] name c = [(name, c)]"
| "setitem ((n, x) # cols) name c =
     (if n = name then (n, c) # cols else (n, x) # setitem cols name c)"

text \<open>An assignment into a table changes the object every reference to it sees.\<close>

definition set_frame :: "world \<Rightarrow> nat \<Rightarrow> frame \<Rightarrow> world" where
  "set_frame w r df = w\<lparr>frames := (frames w)[r := df]\<rparr>"

subsection \<open>The calls made to the plotting libraries\<close>

text \<open>
  Rendering is external. A function that reaches its plotting call returns that call,
  with the arguments the source passes; what the plotting library does with it
  (including the exceptions it may raise) is outside the repository.
\<close>

datatype label = Str string | Num pyfloat

record pie_request =
  pie_data :: "(label \<times> nat) list"
  pie_autopct :: string
  pie_title :: string
  pie_xlabel :: string
  pie_ylabel :: string
  pie_fontsize :: int
  pie_startangle :: int

record map_request =
  map_data_frame :: frame
  map_lat :: string
  map_lon :: string
  map_color :: "string option"
  map_hover_name :: string
  map_zoom :: nat
  map_height :: nat
  map_center_lon :: real
  map_center_lat :: real
  map_style :: string

datatype dtype = DBool | DFloat64

datatype scalar = BoolVal bool | FloatVal pyfloat

record ndarray =
  dtype :: dtype
  rows :: "scalar list list"

record heatmap_request =
  heat_figsize :: "nat \<times> nat"
  heat_data :: ndarray
  heat_mask :: ndarray
  heat_vmin :: int
  heat_vmax :: int
  heat_annot :: bool
  heat_cmap :: string
  heat_title :: string

datatype plot_call =
    PiePlot nat pie_request
  | AxesRemove nat
  | ScatterMapbox map_request
  | Heatmap heatmap_request
  | AcfPacf "nat \<times> nat" frame "nat option"

section \<open>utils.py and visualizations.py: create_pie_chart_with_grouped_threshold\<close>

text \<open>
  The two modules hold the same function, line for line; one definition models both.

  \<^verbatim>\<open>groupby\<close> drops the rows whose key is missing and orders the groups by key. Keys
  of an object column are strings, keys of a numeric column are numbers; where one
  column mixes both (the cleaned labels below), pandas puts the numbers first.
\<close>

fun present :: "column \<Rightarrow> label list" where
  "present (ObjCol xs) = map Str (List.map_filter id xs)"
| "present (FloatCol ys) = map Num (filter (\<lambda>y. y \<noteq> NaN) ys)"

definition float_rank :: "pyfloat \<Rightarrow> nat \<times> real" where
  "float_rank y = (case y of NegInf \<Rightarrow> (0, 0) | Finite r \<Rightarrow> (1, r) | PosInf \<Rightarrow> (2, 0) | NaN \<Rightarrow> (3, 0))"

definition label_rank :: "label \<Rightarrow> nat \<times> (nat \<times> real) \<times> string" where
  "label_rank l = (case l of Num y \<Rightarrow> (0, float_rank y, []) | Str s \<Rightarrow> (1, (0, 0), s))"

text \<open>
  \<^verbatim>\<open>input_df.groupby(column_name).size().to_frame().reset_index().rename(columns={0: 'sizes'})\<close>:
  one row per distinct key, with the number of rows that carry it.
\<close>

definition groupby_size :: "column \<Rightarrow> (label \<times> nat) list" where
  "groupby_size c =
     (let keys = present c
      in map (\<lambda>k. (k, count_list keys k)) (sort_key label_rank (remdups keys)))"

text \<open>
  \<^verbatim>\<open>grouped_df.groupby('label_cleaned').sizes.sum()\<close>: one row per distinct label that is
  not missing, with the sum of \<^verbatim>\<open>sizes\<close> over the rows of that label.
\<close>

definition groupby_sum :: "label option list \<Rightarrow> nat list \<Rightarrow> (label \<times> nat) list" where
  "groupby_sum labels sizes =
     (let rows = zip labels sizes;
          keys = List.map_filter id labels
      in map (\<lambda>k. (k, sum_list (map snd (filter (\<lambda>(l, n). l = Some k) rows))))
           (sort_key label_rank (remdups keys)))"

text \<open>
  \<^verbatim>\<open>label_cleaned.fillna(other)\<close> takes the value of \<^verbatim>\<open>other\<close> in the rows where the
  label is missing.
\<close>

definition fillna :: "label option list \<Rightarrow> label option list \<Rightarrow> label option list" where
  "fillna labels other = map2 (\<lambda>l v. case l of None \<Rightarrow> v | Some x \<Rightarrow> Some x) labels other"

definition as_label :: "pyfloat \<Rightarrow> label option" where
  "as_label y = (if y = NaN then None else Some (Num y))"

text \<open>
  The function. \<open>true_divide\<close> is the division of two \<^verbatim>\<open>int64\<close> numbers that gives a
  float (\<^verbatim>\<open>sizes / sizes.sum()\<close>), a parameter. The grouped table is a new object with
  the columns \<open>column_name\<close>, \<^verbatim>\<open>sizes\<close>, \<^verbatim>\<open>perc\<close> and \<^verbatim>\<open>label_cleaned\<close>, kept here
  column by column. Two names of the category column collide with these:
  \<^item> \<^verbatim>\<open>'perc'\<close>: the assignment \<^verbatim>\<open>grouped_df['perc'] = ...\<close> overwrites the keys, so that
    \<^verbatim>\<open>fillna(grouped_df[column_name])\<close> fills in the fractions;
  \<^item> \<^verbatim>\<open>'sizes'\<close>: the renamed table has two columns of that label, \<^verbatim>\<open>grouped_df.sizes\<close> is
    a table, and the division (string keys) or the assignment of its two-column
    result (numeric keys) raises.
  \<^verbatim>\<open>sort_values\<close> orders by count; among equal counts the model keeps the order of
  the labels.
\<close>

definition create_pie_chart_with_grouped_threshold ::
  "(nat \<Rightarrow> nat \<Rightarrow> pyfloat) \<Rightarrow> world \<Rightarrow> nat \<Rightarrow> string \<Rightarrow> nat \<Rightarrow> string \<Rightarrow> pyfloat \<Rightarrow> string \<Rightarrow>
   string \<Rightarrow> string \<Rightarrow> int \<Rightarrow> int \<Rightarrow> world \<times> plot_call result" where
  "create_pie_chart_with_grouped_threshold true_divide w input_df column_name ax title
     threshold grouped_label x_label y_label font_size start_angle =
     (case getitem (frames w ! input_df) column_name of
        Inl e \<Rightarrow> (w, Inl e)
      | Inr c \<Rightarrow>
          (let grouped_df = groupby_size c;
               keys = map fst grouped_df;
               sizes = map snd grouped_df
           in if grouped_df \<noteq> [] then
                if column_name = ''sizes''
                then (w, Inl (case c of ObjCol _ \<Rightarrow> TypeError | FloatCol _ \<Rightarrow> ValueError))
                else
                  (let perc = map (\<lambda>n. true_divide n (sum_list sizes)) sizes;
                       cond_lt_threshold = map (\<lambda>p. float_lt p threshold) perc;
                       label_cleaned =
                         map (\<lambda>b. if b then Some (Str grouped_label) else None)
                           cond_lt_threshold;
                       label_cleaned =
                         fillna label_cleaned
                           (if column_name = ''perc'' then map as_label perc else map Some keys)
                   in (w, Inr (PiePlot ax
                         \<lparr>pie_data = sort_key snd (groupby_sum label_cleaned sizes),
                          pie_autopct = ''%1.1f%%'', pie_title = title,
                          pie_xlabel = x_label, pie_ylabel = y_label,
                          pie_fontsize = font_size, pie_startangle = start_angle\<rparr>)))
              else (w, Inr (AxesRemove ax))))"

section \<open>visualizations.py\<close>

subsection \<open>plot_measuring_points\<close>

text \<open>\<^verbatim>\<open>s.split(c)\<close> for a separator of one character.\<close>

fun split_on :: "char \<Rightarrow> string \<Rightarrow> string list" where
  "split_on sep [] = [[]]"
| "split_on sep (x # xs) =
     (if x = sep then [] # split_on sep xs
      else (case split_on sep xs of [] \<Rightarrow> [[x]] | p # ps \<Rightarrow> (x # p) # ps))"

text \<open>
  \<^verbatim>\<open>.str\<close> is refused on a numeric column with \<^verbatim>\<open>AttributeError\<close>. On an object
  column \<^verbatim>\<open>.str.split(',')\<close> splits every string and keeps missing values,
  \<^verbatim>\<open>.str[i]\<close> takes part \<open>i\<close> or gives a missing value where there is none, and
  \<^verbatim>\<open>.astype('float')\<close> converts every string with Python's \<^verbatim>\<open>float\<close> (the parameter
  \<open>to_float\<close>, \<open>None\<close> where it raises \<^verbatim>\<open>ValueError\<close>) and a missing value to \<^verbatim>\<open>nan\<close>.
\<close>

definition str_split :: "char \<Rightarrow> column \<Rightarrow> string list option list result" where
  "str_split sep c =
     (case c of
        FloatCol _ \<Rightarrow> Inl AttributeError
      | ObjCol xs \<Rightarrow> Inr (map (map_option (split_on sep)) xs))"

definition str_get :: "nat \<Rightarrow> string list option list \<Rightarrow> string option list" where
  "str_get i parts =
     map (\<lambda>p. case p of None \<Rightarrow> None
              | Some ps \<Rightarrow> if i < length ps then Some (ps ! i) else None) parts"

fun astype_float :: "(string \<Rightarrow> pyfloat option) \<Rightarrow> string option list \<Rightarrow> pyfloat list result" where
  "astype_float to_float [] = Inr []"
| "astype_float to_float (x # xs) =
     (case (case x of None \<Rightarrow> Some NaN | Some s \<Rightarrow> to_float s) of
        None \<Rightarrow> Inl ValueError
      | Some y \<Rightarrow>
          (case astype_float to_float xs of Inl e \<Rightarrow> Inl e | Inr ys \<Rightarrow> Inr (y # ys)))"

text \<open>
  \<^verbatim>\<open>df[target] = df[coordinates_column].str.split(',').str[i].astype('float')\<close>: the
  right-hand side is evaluated first, and the caller's table is written only if it
  does not raise.
\<close>

definition assign_coordinate ::
  "(string \<Rightarrow> pyfloat option) \<Rightarrow> world \<Rightarrow> nat \<Rightarrow> string \<Rightarrow> string \<Rightarrow> nat \<Rightarrow> world \<times> unit result" where
  "assign_coordinate to_float w df coordinates_column target i =
     (case getitem (frames w ! df) coordinates_column of
        Inl e \<Rightarrow> (w, Inl e)
      | Inr c \<Rightarrow>
          (case str_split CHR '','' c of
             Inl e \<Rightarrow> (w, Inl e)
           | Inr parts \<Rightarrow>
               (case astype_float to_float (str_get i parts) of
                  Inl e \<Rightarrow> (w, Inl e)
                | Inr ys \<Rightarrow>
                    (set_frame w df (setitem (frames w ! df) target (FloatCol ys)), Inr ()))))"

text \<open>Lines 76 and 77: \<^verbatim>\<open>df['lat'] = ...\<close>, then \<^verbatim>\<open>df['lon'] = ...\<close>.\<close>

definition assign_lat_lon ::
  "(string \<Rightarrow> pyfloat option) \<Rightarrow> world \<Rightarrow> nat \<Rightarrow> string \<Rightarrow> world \<times> unit result" where
  "assign_lat_lon to_float w df coordinates_column =
     (case assign_coordinate to_float w df coordinates_column ''lat'' 0 of
        (w1, Inl e) \<Rightarrow> (w1, Inl e)
      | (w1, Inr _) \<Rightarrow> assign_coordinate to_float w1 df coordinates_column ''lon'' 1)"

text \<open>
  \<^verbatim>\<open>try: measuring_point_ids = df['id']\<close>
  \<^verbatim>\<open>except KeyError: measuring_point_ids = df['measuring_point_id']\<close>
\<close>

definition lookup_measuring_point_ids :: "frame \<Rightarrow> column result" where
  "lookup_measuring_point_ids df =
     (case getitem df ''id'' of
        Inr c \<Rightarrow> Inr c
      | Inl (KeyError _) \<Rightarrow> getitem df ''measuring_point_id''
      | Inl e \<Rightarrow> Inl e)"

text \<open>
  \<^verbatim>\<open>series + ' : '\<close> appends to every string of an object column and keeps missing
  values; on a numeric column it raises \<^verbatim>\<open>TypeError\<close>. \<^verbatim>\<open>series + other\<close>, with the
  left operand an object column of strings, concatenates row by row; a row with a
  missing value on either side is missing, and a string meeting a number raises
  \<^verbatim>\<open>TypeError\<close>.
\<close>

definition add_str :: "column \<Rightarrow> string \<Rightarrow> string option list result" where
  "add_str c s =
     (case c of
        FloatCol _ \<Rightarrow> Inl TypeError
      | ObjCol xs \<Rightarrow> Inr (map (map_option (\<lambda>x. x @ s)) xs))"

definition add_column :: "string option list \<Rightarrow> column \<Rightarrow> column result" where
  "add_column xs c =
     (case c of
        ObjCol ys \<Rightarrow>
          Inr (ObjCol (map2 (\<lambda>x y. case (x, y) of (Some a, Some b) \<Rightarrow> Some (a @ b) | _ \<Rightarrow> None)
                         xs ys))
      | FloatCol ys \<Rightarrow>
          if list_ex (\<lambda>(x, y). x \<noteq> None \<and> y \<noteq> NaN) (zip xs ys) then Inl TypeError
          else Inr (ObjCol (map (\<lambda>x. None) xs)))"

text \<open>
  Lines 84 to 96, from the identifier column that was found:
  \<^verbatim>\<open>df['text'] = measuring_point_ids + ' : ' + df['description']\<close>, then the map.
\<close>

definition label_and_show ::
  "world \<Rightarrow> nat \<Rightarrow> column \<Rightarrow> string option \<Rightarrow> world \<times> plot_call result" where
  "label_and_show w df measuring_point_ids color_column =
     (case add_str measuring_point_ids '' : '' of
        Inl e \<Rightarrow> (w, Inl e)
      | Inr prefix \<Rightarrow>
          (case getitem (frames w ! df) ''description'' of
             Inl e \<Rightarrow> (w, Inl e)
           | Inr description \<Rightarrow>
               (case add_column prefix description of
                  Inl e \<Rightarrow> (w, Inl e)
                | Inr text \<Rightarrow>
                    (let w' = set_frame w df (setitem (frames w ! df) ''text'' text)
                     in (w', Inr (ScatterMapbox
                           \<lparr>map_data_frame = frames w' ! df, map_lat = ''lat'', map_lon = ''lon'',
                            map_color = color_column, map_hover_name = ''text'', map_zoom = 11,
                            map_height = 600, map_center_lon = 207 / 100,
                            map_center_lat = 414 / 10, map_style = ''stamen-terrain''\<rparr>))))))"

definition plot_measuring_points ::
  "(string \<Rightarrow> pyfloat option) \<Rightarrow> world \<Rightarrow> nat \<Rightarrow> string \<Rightarrow> string option \<Rightarrow>
   world \<times> plot_call result" where
  "plot_measuring_points to_float w df coordinates_column color_column =
     (case assign_lat_lon to_float w df coordinates_column of
        (w1, Inl e) \<Rightarrow> (w1, Inl e)
      | (w1, Inr _) \<Rightarrow>
          (case lookup_measuring_point_ids (frames w1 ! df) of
             Inl e \<Rightarrow> (w1, Inl e)
           | Inr measuring_point_ids \<Rightarrow> label_and_show w1 df measuring_point_ids color_column))"

subsection \<open>plot_correlation_heat_map\<close>

text \<open>
  \<^verbatim>\<open>np.ones_like(a, dtype=d)\<close> has the shape of \<open>a\<close> and the one of \<open>d\<close> everywhere;
  \<^verbatim>\<open>np.triu(a)\<close> keeps the entries on and above the diagonal and puts the zero of the
  element type below it. \<^verbatim>\<open>np.bool\<close> is read as the boolean element type, as in the
  NumPy versions that have the name.
\<close>

definition dtype_one :: "dtype \<Rightarrow> scalar" where
  "dtype_one d = (case d of DBool \<Rightarrow> BoolVal True | DFloat64 \<Rightarrow> FloatVal (Finite 1))"

definition dtype_zero :: "dtype \<Rightarrow> scalar" where
  "dtype_zero d = (case d of DBool \<Rightarrow> BoolVal False | DFloat64 \<Rightarrow> FloatVal (Finite 0))"

definition ones_like :: "ndarray \<Rightarrow> dtype \<Rightarrow> ndarray" where
  "ones_like a d = \<lparr>dtype = d, rows = map (map (\<lambda>x. dtype_one d)) (rows a)\<rparr>"

definition triu :: "ndarray \<Rightarrow> ndarray" where
  "triu a =
     \<lparr>dtype = dtype a,
      rows = map (\<lambda>(i, r). map (\<lambda>(j, x). if i \<le> j then x else dtype_zero (dtype a)) (enumerate 0 r))
               (enumerate 0 (rows a))\<rparr>"

text \<open>
  \<^verbatim>\<open>DataFrame.corr\<close> is external, the parameter \<open>corr\<close>: from the table and the method
  name to the correlation matrix or an exception.
\<close>

definition plot_correlation_heat_map ::
  "(frame \<Rightarrow> string \<Rightarrow> ndarray result) \<Rightarrow> world \<Rightarrow> nat \<Rightarrow> string \<Rightarrow> string \<Rightarrow> nat \<times> nat \<Rightarrow> string \<Rightarrow>
   world \<times> plot_call result" where
  "plot_correlation_heat_map corr w input_df title color_map fig_size correlation_method =
     (case corr (frames w ! input_df) ''pearson'' of
        Inl e \<Rightarrow> (w, Inl e)
      | Inr c \<Rightarrow>
          (let mask = triu (ones_like c DBool)
           in case corr (frames w ! input_df) correlation_method of
                Inl e \<Rightarrow> (w, Inl e)
              | Inr data \<Rightarrow>
                  (w, Inr (Heatmap
                     \<lparr>heat_figsize = fig_size, heat_data = data, heat_mask = mask,
                      heat_vmin = - 1, heat_vmax = 1, heat_annot = True,
                      heat_cmap = color_map, heat_title = title\<rparr>))))"

subsection \<open>plot_acf_pacf\<close>

definition plot_acf_pacf :: "world \<Rightarrow> nat \<Rightarrow> nat option \<Rightarrow> nat \<times> nat \<Rightarrow> world \<times> plot_call result" where
  "plot_acf_pacf w timeseries lags fig_size =
     (w, Inr (AcfPacf fig_size (frames w ! timeseries) lags))"

section \<open>The expected result of the grouping\<close>

text \<open>
  The final label of a category \<open>k\<close>, stated without the intermediate table: the
  catch-all label if the fraction of \<open>n_rows\<close> rows that carry \<open>k\<close> is strictly below
  the threshold, and \<open>k\<close> itself otherwise. \<open>keys\<close> are the categories of the rows that
  have one. The fraction is computed with the division of the source.
\<close>

definition label_by_fraction ::
  "(nat \<Rightarrow> nat \<Rightarrow> pyfloat) \<Rightarrow> nat \<Rightarrow> label list \<Rightarrow> pyfloat \<Rightarrow> string \<Rightarrow> label \<Rightarrow> label" where
  "label_by_fraction true_divide n_rows keys threshold grouped_label k =
     (if float_lt (true_divide (count_list keys k) n_rows) threshold
      then Str grouped_label else k)"

text \<open>The fraction taken of the rows that have a category.\<close>

definition expected_label ::
  "(nat \<Rightarrow> nat \<Rightarrow> pyfloat) \<Rightarrow> label list \<Rightarrow> pyfloat \<Rightarrow> string \<Rightarrow> label \<Rightarrow> label" where
  "expected_label true_divide keys threshold grouped_label =
     label_by_fraction true_divide (length keys) keys threshold grouped_label"

text \<open>The rows counted by their expected label, in the order of the labels.\<close>

definition expected_counts ::
  "(nat \<Rightarrow> nat \<Rightarrow> pyfloat) \<Rightarrow> label list \<Rightarrow> pyfloat \<Rightarrow> string \<Rightarrow> (label \<times> nat) list" where
  "expected_counts true_divide keys threshold grouped_label =
     map (\<lambda>L. (L, length (filter (\<lambda>k. expected_label true_divide keys threshold grouped_label k = L)
                            keys)))
       (sort_key label_rank
          (remdups (map (expected_label true_divide keys threshold grouped_label)
             (sort_key label_rank (remdups keys)))))"

text \<open>A column in which every row is missing.\<close>

definition all_missing :: "column \<Rightarrow> bool" where
  "all_missing c =
     (case c of ObjCol xs \<Rightarrow> list_all (\<lambda>x. x = None) xs
              | FloatCol ys \<Rightarrow> list_all (\<lambda>y. y = NaN) ys)"

section \<open>Example inputs\<close>

definition example_table :: frame where
  "example_table = [(''y'', FloatCol [Finite 1, Finite 3, Finite 2, Finite 5, Finite 4])]"

definition example_world :: world where
  "example_world = \<lparr>frames = [example_table], stdout = []\<rparr>"

definition adf_example :: "pyfloat \<Rightarrow> adf_result" where
  "adf_example p =
     \<lparr>adf_statistic = Finite (- 3), adf_p_value = p, adf_used_lag = 1, adf_n_obs = 3,
      adf_critical_values = [(''1%'', Finite (- 7 / 2)), (''5%'', Finite (- 29 / 10))],
      adf_icbest = Finite 12\<rparr>"

definition adf_example' :: "pyfloat \<Rightarrow> adf_result" where
  "adf_example' p =
     \<lparr>adf_statistic = Finite 40, adf_p_value = p, adf_used_lag = 0, adf_n_obs = 4,
      adf_critical_values = [(''10%'', Finite (- 5 / 2))], adf_icbest = NaN\<rparr>"

definition kpss_example :: "pyfloat \<Rightarrow> kpss_result" where
  "kpss_example p =
     \<lparr>kpss_statistic = Finite (1 / 10), kpss_p_value = p, kpss_lags = 2,
      kpss_critical_values = [(''10%'', Finite (347 / 1000)), (''5%'', Finite (463 / 1000))]\<rparr>"

definition kpss_example' :: "pyfloat \<Rightarrow> kpss_result" where
  "kpss_example' p =
     \<lparr>kpss_statistic = Finite 9, kpss_p_value = p, kpss_lags = 0,
      kpss_critical_values = [(''p-value'', Finite 0), (''1%'', Finite (739 / 1000))]\<rparr>"

text \<open>
  Instances of the parameters for the examples: the quotient of two counts without
  rounding, and the reading of a plain decimal literal (Python's \<^verbatim>\<open>float\<close> accepts
  more forms and rounds to binary64).
\<close>

definition exact_divide :: "nat \<Rightarrow> nat \<Rightarrow> pyfloat" where
  "exact_divide a b = Finite (real a / real b)"

definition digit_of :: "char \<Rightarrow> nat option" where
  "digit_of c =
     (let n = (of_char c :: nat) in if 48 \<le> n \<and> n \<le> 57 then Some (n - 48) else None)"

fun digits_value :: "nat \<Rightarrow> string \<Rightarrow> nat option" where
  "digits_value acc [] = Some acc"
| "digits_value acc (c # cs) =
     (case digit_of c of None \<Rightarrow> None | Some d \<Rightarrow> digits_value (10 * acc + d) cs)"

definition decimal_float :: "string \<Rightarrow> pyfloat option" where
  "decimal_float s =
     (let neg = (s \<noteq> [] \<and> hd s = CHR ''-'');
          body = (if neg then tl s else s);
          sign = (if neg then - 1 else 1 :: real)
      in case split_on CHR ''.'' body of
           [i] \<Rightarrow>
             if i = [] then None
             else map_option (\<lambda>a. Finite (sign * real a)) (digits_value 0 i)
         | [i, f] \<Rightarrow>
             if i = [] \<and> f = [] then None
             else (case (digits_value 0 i, digits_value 0 f) of
                     (Some a, Some b) \<Rightarrow>
                       Some (Finite (sign * (real a + real b / 10 ^ length f)))
                   | _ \<Rightarrow> None)
         | _ \<Rightarrow> None)"

text \<open>The scenario of the specification: 100 rows, categories A, B, C and D.\<close>

definition scenario_column :: column where
  "scenario_column =
     ObjCol (replicate 50 (Some ''A'') @ replicate 3 (Some ''C'') @ replicate 45 (Some ''B'')
             @ replicate 2 (Some ''D''))"

definition scenario_table :: frame where
  "scenario_table = [(''category'', scenario_column)]"

definition scenario_world :: world where
  "scenario_world = \<lparr>frames = [scenario_table], stdout = []\<rparr>"

text \<open>
  Tables with missing categories, with no rows (with and without the category column),
  and with a category column that has the name of a working column of the function.
\<close>

definition missing_column :: column where
  "missing_column = ObjCol [Some ''A'', None, Some ''B'', None, Some ''B'']"

definition missing_table :: frame where
  "missing_table = [(''category'', missing_column)]"

definition missing_world :: world where
  "missing_world = \<lparr>frames = [missing_table], stdout = []\<rparr>"

definition all_missing_table :: frame where
  "all_missing_table =
     [(''category'', ObjCol [None, None]), (''value'', FloatCol [Finite 1, Finite 2])]"

definition all_missing_world :: world where
  "all_missing_world = \<lparr>frames = [all_missing_table], stdout = []\<rparr>"

definition empty_table :: frame where
  "empty_table = [(''category'', ObjCol []), (''value'', FloatCol [])]"

definition empty_world :: world where
  "empty_world = \<lparr>frames = [empty_table], stdout = []\<rparr>"

definition no_category_table :: frame where
  "no_category_table = [(''value'', FloatCol [])]"

definition no_category_world :: world where
  "no_category_world = \<lparr>frames = [no_category_table], stdout = []\<rparr>"

definition perc_table :: frame where
  "perc_table = [(''perc'', ObjCol [Some ''A'', Some ''B''])]"

definition perc_world :: world where
  "perc_world = \<lparr>frames = [perc_table], stdout = []\<rparr>"

definition sizes_table :: frame where
  "sizes_table = [(''sizes'', ObjCol [Some ''A'', Some ''B''])]"

definition sizes_world :: world where
  "sizes_world = \<lparr>frames = [sizes_table], stdout = []\<rparr>"

text \<open>
  Measuring points, with and without an identifier column, and with a coordinate that is
  not a number.
\<close>

definition points_table :: frame where
  "points_table =
     [(''coordinates'', ObjCol [Some ''41.4,2.07'', Some ''41.5,2.1'']),
      (''id'', ObjCol [Some ''p1'', Some ''p2'']),
      (''description'', ObjCol [Some ''north'', Some ''south''])]"

definition points_world :: world where
  "points_world = \<lparr>frames = [points_table], stdout = []\<rparr>"

definition points_fallback_table :: frame where
  "points_fallback_table =
     [(''coordinates'', ObjCol [Some ''41.4,2.07'', Some ''41.5,2.1'']),
      (''measuring_point_id'', ObjCol [Some ''m1'', Some ''m2'']),
      (''description'', ObjCol [Some ''north'', Some ''south''])]"

definition points_fallback_world :: world where
  "points_fallback_world = \<lparr>frames = [points_fallback_table], stdout = []\<rparr>"

definition points_no_id_table :: frame where
  "points_no_id_table =
     [(''coordinates'', ObjCol [Some ''41.4,2.07'', Some ''41.5,2.1'']),
      (''description'', ObjCol [Some ''north'', Some ''south''])]"

definition points_no_id_world :: world where
  "points_no_id_world = \<lparr>frames = [points_no_id_table], stdout = []\<rparr>"

definition points_bad_table :: frame where
  "points_bad_table =
     [(''coordinates'', ObjCol [Some ''41.4,2.07'', Some ''41.5,xx'']),
      (''description'', ObjCol [Some ''north'', Some ''south''])]"

definition points_bad_world :: world where
  "points_bad_world = \<lparr>frames = [points_bad_table], stdout = []\<rparr>"

text \<open>A correlation matrix of three columns.\<close>

definition corr_example :: "frame \<Rightarrow> string \<Rightarrow> ndarray result" where
  "corr_example df method =
     Inr \<lparr>dtype = DFloat64,
          rows = [[FloatVal (Finite 1), FloatVal (Finite (1 / 2)), FloatVal (Finite 0)],
                  [FloatVal (Finite (1 / 2)), FloatVal (Finite 1), FloatVal (Finite (- 1 / 4))],
                  [FloatVal (Finite 0), FloatVal (Finite (- 1 / 4)), FloatVal (Finite 1)]]\<rparr>"

section \<open>Properties of timeseries.py\<close>

lemma frames_print [simp]: "frames (print l w) = frames w"
  by (simp add: print_def)

lemma frames_print_all [simp]: "frames (print_all ls w) = frames w"
  by (induction ls arbitrary: w) simp_all

lemma frames_print_critical_values [simp]:
  "frames (print_critical_values repr_float items w) = frames w"
  by (induction items arbitrary: w) auto

lemma run_adfuller_test_returns:
  assumes "adfuller (frames w ! timeseries) auto_lag = Inr res"
  shows "snd (run_adfuller_test adfuller repr_float w timeseries auto_lag)
           = Inr (float_le (adf_p_value res) alpha)"
  using assms by (simp add: run_adfuller_test_def Let_def)

lemma float_gt_not_le: "float_gt a b \<Longrightarrow> \<not> float_le a b"
  by (auto simp: float_gt_def float_lt_def float_le_def split: pyfloat.splits)

lemma float_le_alpha_refl: "float_le alpha alpha"
  by (simp add: float_le_def alpha_def)

lemma length_series_setitem: "length s \<le> length (series_setitem s label v)"
  by (induction s label v rule: series_setitem.induct) auto

lemma series_setitem_nth:
  "i < length s \<Longrightarrow> fst (s ! i) \<noteq> label \<Longrightarrow> series_setitem s label v ! i = s ! i"
proof (induction s label v arbitrary: i rule: series_setitem.induct)
  case (1 label v)
  then show ?case by simp
next
  case (2 l x items label v)
  then show ?case by (cases i) auto
qed

lemma add_critical_values_p_value:
  "1 < length s \<Longrightarrow> s ! 1 = (''p-value'', p) \<Longrightarrow>
   1 < length (add_critical_values s items) \<and> add_critical_values s items ! 1 = (''p-value'', p)"
proof (induction s items rule: add_critical_values.induct)
  case (1 s)
  then show ?case by simp
next
  case (2 s key val items)
  have "1 < length (series_setitem s (''Critical Value '' @ key) val)"
    using "2.prems"(1) length_series_setitem [of s "''Critical Value '' @ key" val] by linarith
  moreover have "series_setitem s (''Critical Value '' @ key) val ! 1 = (''p-value'', p)"
    using "2.prems" by (simp add: series_setitem_nth)
  ultimately show ?case using "2.IH" by simp
qed

lemma run_kpss_test_returns:
  assumes "kpss (frames w ! timeseries) regression = Inr res"
  shows "snd (run_kpss_test kpss repr_series w timeseries regression)
           = Inr (\<not> float_le (kpss_p_value res) alpha)"
proof -
  let ?s0 = "[(''Test Statistic'', kpss_statistic res), (''p-value'', kpss_p_value res),
              (''Lags Used'', float_of_int (kpss_lags res))]"
  have "1 < length ?s0" and "?s0 ! 1 = (''p-value'', kpss_p_value res)" by simp_all
  then have "series_getitem_pos (add_critical_values ?s0 (kpss_critical_values res)) 1
               = Inr (kpss_p_value res)"
    using add_critical_values_p_value [of ?s0 "kpss_p_value res" "kpss_critical_values res"]
    by (simp add: series_getitem_pos_def)
  then show ?thesis using assms by (simp add: run_kpss_test_def Let_def)
qed

text \<open>
  Claim C1. Whenever the ADF routine returns a result, \<open>run_adfuller_test\<close> returns
  \<^verbatim>\<open>True\<close> if the p-value of that result is at most 0.05 and \<^verbatim>\<open>False\<close> if it is
  greater than 0.05; a p-value equal to 0.05 gives \<^verbatim>\<open>True\<close>.
\<close>

theorem run_adfuller_test_verdict:
  assumes "adfuller (frames w ! timeseries) auto_lag = Inr res"
  shows "(float_le (adf_p_value res) alpha \<longrightarrow>
            snd (run_adfuller_test adfuller repr_float w timeseries auto_lag) = Inr True)
       \<and> (float_gt (adf_p_value res) alpha \<longrightarrow>
            snd (run_adfuller_test adfuller repr_float w timeseries auto_lag) = Inr False)
       \<and> (adf_p_value res = alpha \<longrightarrow>
            snd (run_adfuller_test adfuller repr_float w timeseries auto_lag) = Inr True)"
  using assms float_gt_not_le [of "adf_p_value res" alpha] float_le_alpha_refl
  by (auto simp: run_adfuller_test_returns)

theorem run_adfuller_test_verdict_witness:
  "float_le (adf_p_value (adf_example alpha)) alpha
   \<and> snd (run_adfuller_test (\<lambda>df lag. Inr (adf_example alpha)) (\<lambda>x. ''?'')
            example_world 0 ''AIC'') = Inr True
   \<and> float_gt (adf_p_value (adf_example (Finite (1 / 2)))) alpha
   \<and> snd (run_adfuller_test (\<lambda>df lag. Inr (adf_example (Finite (1 / 2)))) (\<lambda>x. ''?'')
            example_world 0 ''AIC'') = Inr False"
proof -
  have le: "float_le (adf_p_value (adf_example alpha)) alpha"
    by (simp add: adf_example_def float_le_def alpha_def)
  have gt: "float_gt (adf_p_value (adf_example (Finite (1 / 2)))) alpha"
    by (simp add: adf_example_def float_gt_def float_lt_def alpha_def)
  have r1: "(\<lambda>df lag. Inr (adf_example alpha)) (frames example_world ! 0) ''AIC''
              = Inr (adf_example alpha)"
    by simp
  have r2: "(\<lambda>df lag. Inr (adf_example (Finite (1 / 2)))) (frames example_world ! 0) ''AIC''
              = Inr (adf_example (Finite (1 / 2)))"
    by simp
  show ?thesis
    using le gt
      run_adfuller_test_verdict [where adfuller = "\<lambda>df lag. Inr (adf_example alpha)"
        and w = example_world and timeseries = 0 and auto_lag = "''AIC''"
        and res = "adf_example alpha" and repr_float = "\<lambda>x. ''?''", OF r1]
      run_adfuller_test_verdict [where adfuller = "\<lambda>df lag. Inr (adf_example (Finite (1 / 2)))"
        and w = example_world and timeseries = 0 and auto_lag = "''AIC''"
        and res = "adf_example (Finite (1 / 2))" and repr_float = "\<lambda>x. ''?''", OF r2]
    by blast
qed

text \<open>
  Claim C2. Whenever the KPSS routine returns a result, \<open>run_kpss_test\<close> returns
  \<^verbatim>\<open>False\<close> if the p-value of that result is at most 0.05 and \<^verbatim>\<open>True\<close> if it is
  greater than 0.05; a p-value equal to 0.05 gives \<^verbatim>\<open>False\<close>. The polarity is the
  opposite of the ADF verdict.
\<close>

theorem run_kpss_test_verdict:
  assumes "kpss (frames w ! timeseries) regression = Inr res"
  shows "(float_le (kpss_p_value res) alpha \<longrightarrow>
            snd (run_kpss_test kpss repr_series w timeseries regression) = Inr False)
       \<and> (float_gt (kpss_p_value res) alpha \<longrightarrow>
            snd (run_kpss_test kpss repr_series w timeseries regression) = Inr True)
       \<and> (kpss_p_value res = alpha \<longrightarrow>
            snd (run_kpss_test kpss repr_series w timeseries regression) = Inr False)"
  using assms float_gt_not_le [of "kpss_p_value res" alpha] float_le_alpha_refl
  by (auto simp: run_kpss_test_returns)

theorem run_kpss_test_verdict_witness:
  "float_le (kpss_p_value (kpss_example alpha)) alpha
   \<and> snd (run_kpss_test (\<lambda>df reg. Inr (kpss_example alpha)) (\<lambda>s. ''?'')
            example_world 0 ''c'') = Inr False
   \<and> float_gt (kpss_p_value (kpss_example (Finite (1 / 2)))) alpha
   \<and> snd (run_kpss_test (\<lambda>df reg. Inr (kpss_example (Finite (1 / 2)))) (\<lambda>s. ''?'')
            example_world 0 ''c'') = Inr True"
proof -
  have le: "float_le (kpss_p_value (kpss_example alpha)) alpha"
    by (simp add: kpss_example_def float_le_def alpha_def)
  have gt: "float_gt (kpss_p_value (kpss_example (Finite (1 / 2)))) alpha"
    by (simp add: kpss_example_def float_gt_def float_lt_def alpha_def)
  have r1: "(\<lambda>df reg. Inr (kpss_example alpha)) (frames example_world ! 0) ''c''
              = Inr (kpss_example alpha)"
    by simp
  have r2: "(\<lambda>df reg. Inr (kpss_example (Finite (1 / 2)))) (frames example_world ! 0) ''c''
              = Inr (kpss_example (Finite (1 / 2)))"
    by simp
  show ?thesis
    using le gt
      run_kpss_test_verdict [where kpss = "\<lambda>df reg. Inr (kpss_example alpha)"
        and w = example_world and timeseries = 0 and regression = "''c''"
        and res = "kpss_example alpha" and repr_series = "\<lambda>s. ''?''", OF r1]
      run_kpss_test_verdict [where kpss = "\<lambda>df reg. Inr (kpss_example (Finite (1 / 2)))"
        and w = example_world and timeseries = 0 and regression = "''c''"
        and res = "kpss_example (Finite (1 / 2))" and repr_series = "\<lambda>s. ''?''", OF r2]
    by blast
qed

text \<open>
  Claim C4. Two results of the ADF routine with the same p-value give the same verdict
  of \<open>run_adfuller_test\<close>, whatever their statistic, lag count and critical values are,
  and likewise two results of the KPSS routine for \<open>run_kpss_test\<close>.
\<close>

theorem verdict_depends_only_on_p_value:
  assumes "adfuller (frames w ! timeseries) auto_lag = Inr a"
    and "adfuller' (frames w' ! timeseries') auto_lag' = Inr a'"
    and "adf_p_value a = adf_p_value a'"
    and "kpss (frames w ! timeseries) regression = Inr k"
    and "kpss' (frames w' ! timeseries') regression' = Inr k'"
    and "kpss_p_value k = kpss_p_value k'"
  shows "snd (run_adfuller_test adfuller repr_float w timeseries auto_lag)
           = snd (run_adfuller_test adfuller' repr_float' w' timeseries' auto_lag')
       \<and> snd (run_kpss_test kpss repr_series w timeseries regression)
           = snd (run_kpss_test kpss' repr_series' w' timeseries' regression')"
  using assms by (simp add: run_adfuller_test_returns run_kpss_test_returns)

theorem verdict_depends_only_on_p_value_witness:
  "adf_example (Finite (1 / 100)) \<noteq> adf_example' (Finite (1 / 100))
   \<and> adf_p_value (adf_example (Finite (1 / 100))) = adf_p_value (adf_example' (Finite (1 / 100)))
   \<and> kpss_example (Finite (1 / 100)) \<noteq> kpss_example' (Finite (1 / 100))
   \<and> kpss_p_value (kpss_example (Finite (1 / 100)))
       = kpss_p_value (kpss_example' (Finite (1 / 100)))
   \<and> snd (run_adfuller_test (\<lambda>df lag. Inr (adf_example (Finite (1 / 100)))) (\<lambda>x. ''?'')
            example_world 0 ''AIC'')
       = snd (run_adfuller_test (\<lambda>df lag. Inr (adf_example' (Finite (1 / 100)))) (\<lambda>x. ''!'')
            example_world 0 ''BIC'')
   \<and> snd (run_kpss_test (\<lambda>df reg. Inr (kpss_example (Finite (1 / 100)))) (\<lambda>s. ''?'')
            example_world 0 ''c'')
       = snd (run_kpss_test (\<lambda>df reg. Inr (kpss_example' (Finite (1 / 100)))) (\<lambda>s. ''!'')
            example_world 0 ''ct'')"
proof -
  have a: "(\<lambda>df lag. Inr (adf_example (Finite (1 / 100)))) (frames example_world ! 0) ''AIC''
             = Inr (adf_example (Finite (1 / 100)))"
    by simp
  have a': "(\<lambda>df lag. Inr (adf_example' (Finite (1 / 100)))) (frames example_world ! 0) ''BIC''
             = Inr (adf_example' (Finite (1 / 100)))"
    by simp
  have pa: "adf_p_value (adf_example (Finite (1 / 100)))
              = adf_p_value (adf_example' (Finite (1 / 100)))"
    by (simp add: adf_example_def adf_example'_def)
  have k: "(\<lambda>df reg. Inr (kpss_example (Finite (1 / 100)))) (frames example_world ! 0) ''c''
             = Inr (kpss_example (Finite (1 / 100)))"
    by simp
  have k': "(\<lambda>df reg. Inr (kpss_example' (Finite (1 / 100)))) (frames example_world ! 0) ''ct''
             = Inr (kpss_example' (Finite (1 / 100)))"
    by simp
  have pk: "kpss_p_value (kpss_example (Finite (1 / 100)))
              = kpss_p_value (kpss_example' (Finite (1 / 100)))"
    by (simp add: kpss_example_def kpss_example'_def)
  have da: "adf_example (Finite (1 / 100)) \<noteq> adf_example' (Finite (1 / 100))"
    by (simp add: adf_example_def adf_example'_def)
  have dk: "kpss_example (Finite (1 / 100)) \<noteq> kpss_example' (Finite (1 / 100))"
    by (simp add: kpss_example_def kpss_example'_def)
  show ?thesis
    using da dk pa pk
      verdict_depends_only_on_p_value
        [where adfuller = "\<lambda>df lag. Inr (adf_example (Finite (1 / 100)))"
          and adfuller' = "\<lambda>df lag. Inr (adf_example' (Finite (1 / 100)))"
          and kpss = "\<lambda>df reg. Inr (kpss_example (Finite (1 / 100)))"
          and kpss' = "\<lambda>df reg. Inr (kpss_example' (Finite (1 / 100)))"
          and w = example_world and w' = example_world and timeseries = 0 and timeseries' = 0
          and auto_lag = "''AIC''" and auto_lag' = "''BIC''"
          and regression = "''c''" and regression' = "''ct''"
          and a = "adf_example (Finite (1 / 100))" and a' = "adf_example' (Finite (1 / 100))"
          and k = "kpss_example (Finite (1 / 100))" and k' = "kpss_example' (Finite (1 / 100))"
          and repr_float = "\<lambda>x. ''?''" and repr_float' = "\<lambda>x. ''!''"
          and repr_series = "\<lambda>s. ''?''" and repr_series' = "\<lambda>s. ''!''",
         OF a a' pa k k' pk]
    by blast
qed

section \<open>Properties of create_pie_chart_with_grouped_threshold\<close>

lemma sum_list_insort_key:
  "sum_list (map g (insort_key f x xs)) = g x + sum_list (map (g :: 'a \<Rightarrow> nat) xs)"
  by (induction xs) auto

lemma sum_list_sort_key: "sum_list (map g (sort_key f xs)) = sum_list (map (g :: 'a \<Rightarrow> nat) xs)"
  by (induction xs) (simp_all add: sum_list_insort_key)

lemma sum_list_real_insort_key:
  "sum_list (map g (insort_key f x xs)) = g x + sum_list (map (g :: 'a \<Rightarrow> real) xs)"
  by (induction xs) auto

lemma sum_list_real_sort_key:
  "sum_list (map g (sort_key f xs)) = sum_list (map (g :: 'a \<Rightarrow> real) xs)"
  by (induction xs) (simp_all add: sum_list_real_insort_key)

lemma distinct_map_insort_key:
  "distinct (map g (insort_key f x xs)) \<longleftrightarrow> g x \<notin> g ` set xs \<and> distinct (map g xs)"
  by (induction xs) (auto simp: set_insort_key)

lemma distinct_map_sort_key: "distinct (map g (sort_key f xs)) \<longleftrightarrow> distinct (map g xs)"
  by (induction xs) (simp_all add: distinct_map_insort_key)

lemma sum_count_filter:
  assumes "distinct K" and "set K = set ks"
  shows "sum_list (map (count_list ks) (filter P K)) = length (filter P ks)"
proof -
  have d: "distinct (filter P K)" using assms(1) by simp
  have "sum_list (map (count_list ks) (filter P K)) = sum (count_list ks) (set (filter P K))"
    using sum_list_distinct_conv_sum_set [OF d] by simp
  also have "\<dots> = sum (count_list (filter P ks)) (set (filter P K))"
    by (rule sum.cong) (auto simp: count_list_eq_length_filter filter_filter conj_commute
          intro!: arg_cong [where f = length] filter_cong)
  also have "\<dots> = length (filter P ks)"
    by (rule sum_count_set) (auto simp: assms(2))
  finally show ?thesis .
qed

lemma sum_count_all:
  assumes "distinct K" and "set K = set ks"
  shows "sum_list (map (count_list ks) K) = length ks"
  using sum_count_filter [OF assms, of "\<lambda>k. True"] by simp

lemma sum_indicator:
  "distinct K \<Longrightarrow> x \<in> set K \<Longrightarrow> sum_list (map (\<lambda>L. if x = L then 1 else 0) K) = (1 :: nat)"
  by (induction K) auto

lemma sum_fibres:
  assumes "distinct K" and "f ` set ks \<subseteq> set K"
  shows "sum_list (map (\<lambda>L. length (filter (\<lambda>k. f k = L) ks)) K) = length ks"
  using assms(2)
proof (induction ks)
  case Nil
  then show ?case by simp
next
  case (Cons k ks)
  have "sum_list (map (\<lambda>L. length (filter (\<lambda>k. f k = L) (k # ks))) K)
          = sum_list (map (\<lambda>L. (if f k = L then 1 else 0) + length (filter (\<lambda>k. f k = L) ks)) K)"
    by (rule arg_cong [where f = sum_list]) auto
  also have "\<dots> = sum_list (map (\<lambda>L. if f k = L then 1 else 0) K)
                    + sum_list (map (\<lambda>L. length (filter (\<lambda>k. f k = L) ks)) K)"
    by (simp add: sum_list_addf)
  also have "\<dots> = 1 + length ks"
    using Cons sum_indicator [OF assms(1), of "f k"] by simp
  finally show ?case by simp
qed

lemma sort_key_eq_Nil: "sort_key f xs = [] \<longleftrightarrow> xs = []"
  using length_sort [of f xs] by (metis length_0_conv)

lemma groupby_size_eq_Nil: "groupby_size c = [] \<longleftrightarrow> present c = []"
  by (simp add: groupby_size_def Let_def sort_key_eq_Nil)

lemma groupby_size_keys:
  "map fst (groupby_size c) = sort_key label_rank (remdups (present c))"
  by (simp add: groupby_size_def Let_def comp_def)

lemma groupby_size_sizes:
  "map snd (groupby_size c) = map (count_list (present c)) (sort_key label_rank (remdups (present c)))"
  by (simp add: groupby_size_def Let_def comp_def)

lemma groupby_size_total: "sum_list (map snd (groupby_size c)) = length (present c)"
  by (simp add: groupby_size_sizes sum_count_all)

lemma map_filter_Some: "List.map_filter id (map (\<lambda>k. Some (f k)) K) = map f K"
  by (induction K) simp_all

lemma groupby_sum_relabelled:
  assumes "distinct K" and "set K = set ks"
  shows "groupby_sum (map (\<lambda>k. Some (f k)) K) (map (count_list ks) K)
           = map (\<lambda>L. (L, length (filter (\<lambda>k. f k = L) ks)))
               (sort_key label_rank (remdups (map f K)))"
proof -
  have rows: "zip (map (\<lambda>k. Some (f k)) K) (map (count_list ks) K)
                = map (\<lambda>k. (Some (f k), count_list ks k)) K"
    by (simp add: zip_map_map zip_same_conv_map comp_def)
  have fibre: "sum_list (map snd (filter (\<lambda>(l, n). l = Some L)
                  (map (\<lambda>k. (Some (f k), count_list ks k)) K)))
                 = length (filter (\<lambda>k. f k = L) ks)" for L
  proof -
    have "map snd (filter (\<lambda>(l, n). l = Some L) (map (\<lambda>k. (Some (f k), count_list ks k)) K))
            = map (count_list ks) (filter (\<lambda>k. f k = L) K)"
      by (induction K) auto
    then show ?thesis using sum_count_filter [OF assms] by simp
  qed
  show ?thesis
    unfolding groupby_sum_def Let_def rows map_filter_Some
    by (simp add: fibre)
qed

lemma label_cleaned_eq:
  "fillna
     (map (\<lambda>b. if b then Some (Str g) else None)
        (map (\<lambda>p. float_lt p t) (map (\<lambda>n. td n (length ks)) (map (count_list ks) K))))
     (map Some K)
   = map (\<lambda>k. Some (expected_label td ks t g k)) K"
  by (simp add: fillna_def expected_label_def label_by_fraction_def zip_map_map zip_same_conv_map comp_def)

lemma grouper_plots:
  assumes "getitem (frames w ! input_df) column_name = Inr c"
    and "column_name \<noteq> ''sizes''" and "column_name \<noteq> ''perc''" and "present c \<noteq> []"
  shows "create_pie_chart_with_grouped_threshold true_divide w input_df column_name ax title
           threshold grouped_label x_label y_label font_size start_angle
         = (w, Inr (PiePlot ax
              \<lparr>pie_data = sort_key snd
                  (expected_counts true_divide (present c) threshold grouped_label),
               pie_autopct = ''%1.1f%%'', pie_title = title, pie_xlabel = x_label,
               pie_ylabel = y_label, pie_fontsize = font_size, pie_startangle = start_angle\<rparr>))"
proof -
  let ?ks = "present c"
  let ?K = "sort_key label_rank (remdups ?ks)"
  have "groupby_sum
          (fillna
             (map (\<lambda>b. if b then Some (Str grouped_label) else None)
                (map (\<lambda>p. float_lt p threshold)
                   (map (\<lambda>n. true_divide n (length ?ks)) (map (count_list ?ks) ?K))))
             (map Some ?K))
          (map (count_list ?ks) ?K)
        = expected_counts true_divide ?ks threshold grouped_label"
    unfolding label_cleaned_eq expected_counts_def
    by (rule groupby_sum_relabelled) simp_all
  then show ?thesis
    using assms
    by (simp add: create_pie_chart_with_grouped_threshold_def Let_def groupby_size_eq_Nil
          groupby_size_keys groupby_size_sizes groupby_size_total sum_count_all del: map_map)
qed

lemma grouper_removes:
  assumes "getitem (frames w ! input_df) column_name = Inr c" and "present c = []"
  shows "create_pie_chart_with_grouped_threshold true_divide w input_df column_name ax title
           threshold grouped_label x_label y_label font_size start_angle
         = (w, Inr (AxesRemove ax))"
  using assms
  by (simp add: create_pie_chart_with_grouped_threshold_def Let_def groupby_size_eq_Nil)

lemma grouper_not_removes:
  assumes "getitem (frames w ! input_df) column_name = Inr c" and "present c \<noteq> []"
  shows "snd (create_pie_chart_with_grouped_threshold true_divide w input_df column_name ax title
           threshold grouped_label x_label y_label font_size start_angle)
         \<noteq> Inr (AxesRemove ax')"
  using assms
  by (simp add: create_pie_chart_with_grouped_threshold_def Let_def groupby_size_eq_Nil)

lemma set_expected_counts:
  "set (expected_counts td ks t g)
     = (\<lambda>L. (L, length (filter (\<lambda>k. expected_label td ks t g k = L) ks)))
         ` expected_label td ks t g ` set ks"
  by (simp add: expected_counts_def)

lemma fst_expected_counts:
  "map fst (expected_counts td ks t g)
     = sort_key label_rank (remdups (map (expected_label td ks t g) (sort_key label_rank (remdups ks))))"
  by (simp add: expected_counts_def comp_def)

lemma distinct_expected_counts: "distinct (map fst (expected_counts td ks t g))"
  by (simp add: fst_expected_counts)

lemma sum_expected_counts: "sum_list (map snd (expected_counts td ks t g)) = length ks"
proof -
  let ?f = "expected_label td ks t g"
  let ?KL = "sort_key label_rank (remdups (map ?f (sort_key label_rank (remdups ks))))"
  have "distinct ?KL" and "?f ` set ks \<subseteq> set ?KL" by simp_all
  then have "sum_list (map (\<lambda>L. length (filter (\<lambda>k. ?f k = L) ks)) ?KL) = length ks"
    by (rule sum_fibres)
  then show ?thesis by (simp add: expected_counts_def comp_def)
qed

lemma kept_label:
  assumes "expected_label td ks t g k = L" and "L \<noteq> Str g"
  shows "k = L \<and> \<not> float_lt (td (count_list ks L) (length ks)) t"
  using assms by (auto simp: expected_label_def label_by_fraction_def split: if_splits)

lemma kept_group:
  assumes "(L, n) \<in> set (expected_counts td ks t g)" and "L \<noteq> Str g"
  shows "n = count_list ks L \<and> \<not> float_lt (td n (length ks)) t"
proof -
  from assms(1) obtain k where k: "k \<in> set ks" "expected_label td ks t g k = L"
    and n: "n = length (filter (\<lambda>k. expected_label td ks t g k = L) ks)"
    by (auto simp: set_expected_counts)
  have "filter (\<lambda>k. expected_label td ks t g k = L) ks = filter ((=) L) ks"
  proof (rule filter_cong [OF refl])
    fix x assume "x \<in> set ks"
    show "(expected_label td ks t g x = L) = (L = x)"
      using kept_label [of td ks t g x L] kept_label [OF k(2) assms(2)] assms(2)
      by (auto simp: expected_label_def label_by_fraction_def)
  qed
  then have "n = count_list ks L" by (simp add: n count_list_eq_length_filter)
  then show ?thesis using kept_label [OF k(2) assms(2)] by simp
qed

lemma fractions_sum:
  assumes "sum_list (map snd xs) = n" and "0 < n"
  shows "(\<Sum>(l, m)\<leftarrow>xs. real m / real n) = 1"
proof -
  have "(\<Sum>(l, m)\<leftarrow>xs. real m / real n) = (\<Sum>x\<leftarrow>xs. real (snd x)) / real n"
    by (induction xs) (auto simp: add_divide_distrib)
  also have "(\<Sum>x\<leftarrow>xs. real (snd x)) = real (sum_list (map snd xs))"
    by (induction xs) auto
  finally show ?thesis using assms by simp
qed

lemma map_filter_id_Nil: "List.map_filter id xs = [] \<longleftrightarrow> (\<forall>x\<in>set xs. x = None)"
  by (induction xs) (auto simp: List.map_filter_simps split: option.splits)

lemma present_Nil_iff: "present c = [] \<longleftrightarrow> all_missing c"
  by (cases c) (auto simp: all_missing_def map_filter_id_Nil list_all_iff filter_empty_conv)

lemma present_length_0: "column_length c = 0 \<Longrightarrow> present c = []"
  by (cases c) (simp_all add: column_length_def List.map_filter_simps)

lemma wf_frame_column_length:
  assumes "wf_frame df" and "map_of df name = Some c"
  shows "column_length c = nrows df"
proof -
  have "(name, c) \<in> set df" using assms(2) by (rule map_of_SomeD)
  then show ?thesis using assms(1) by (auto simp: wf_frame_def list_all_iff)
qed

lemma getitem_column:
  assumes "name \<in> set (columns df)"
  shows "\<exists>c. map_of df name = Some c \<and> getitem df name = Inr c"
proof -
  from assms have "name \<in> fst ` set df" by (simp add: columns_def)
  then obtain c where "map_of df name = Some c"
    by (metis domIff dom_map_of_conv_image_fst not_Some_eq)
  then show ?thesis by (simp add: getitem_def)
qed

text \<open>
  Claim C3, as the code has it. For a table with at least one row that has a category,
  and a category column not named \<^verbatim>\<open>sizes\<close> or \<^verbatim>\<open>perc\<close>, the function hands the pie
  plot the groups of final labels, where
  \<^item> a category is relabelled to \<open>grouped_label\<close> exactly when its fraction of the rows
    that have a category is strictly below \<open>threshold\<close> (\<open>expected_label\<close>);
  \<^item> the count of a final label is the number of rows whose category got that label;
  \<^item> no label occurs twice, and the groups are in ascending order of count.
\<close>

theorem grouper_relabels_and_sorts:
  assumes "getitem (frames w ! input_df) column_name = Inr c"
    and "column_name \<noteq> ''sizes''" and "column_name \<noteq> ''perc''"
    and "present c \<noteq> []"
  shows "\<exists>groups.
           snd (create_pie_chart_with_grouped_threshold true_divide w input_df column_name ax
                  title threshold grouped_label x_label y_label font_size start_angle)
             = Inr (PiePlot ax
                 \<lparr>pie_data = groups, pie_autopct = ''%1.1f%%'', pie_title = title,
                  pie_xlabel = x_label, pie_ylabel = y_label, pie_fontsize = font_size,
                  pie_startangle = start_angle\<rparr>)
         \<and> distinct (map fst groups)
         \<and> sorted (map snd groups)
         \<and> set groups
             = (\<lambda>L. (L, length (filter
                         (\<lambda>k. expected_label true_divide (present c) threshold grouped_label k = L)
                         (present c))))
                 ` expected_label true_divide (present c) threshold grouped_label ` set (present c)"
proof -
  let ?groups = "sort_key snd (expected_counts true_divide (present c) threshold grouped_label)"
  have "distinct (map fst ?groups)"
    by (simp add: distinct_map_sort_key distinct_expected_counts)
  moreover have "sorted (map snd ?groups)"
    by (rule sorted_sort_key)
  moreover have "set ?groups
      = (\<lambda>L. (L, length (filter
                  (\<lambda>k. expected_label true_divide (present c) threshold grouped_label k = L)
                  (present c))))
          ` expected_label true_divide (present c) threshold grouped_label ` set (present c)"
    by (simp add: set_expected_counts)
  ultimately show ?thesis
    unfolding grouper_plots [OF assms] by (intro exI [of _ ?groups]) simp
qed

text \<open>
  The scenario of the specification: A 50, B 45, C 3 and D 2 of 100 rows, threshold 0.05,
  give Others 5, B 45, A 50 in this order.
\<close>

theorem grouper_relabels_and_sorts_witness:
  "getitem (frames scenario_world ! 0) ''category'' = Inr scenario_column
   \<and> ''category'' \<noteq> ''sizes'' \<and> ''category'' \<noteq> ''perc''
   \<and> present scenario_column \<noteq> []
   \<and> snd (create_pie_chart_with_grouped_threshold exact_divide scenario_world 0 ''category'' 0
            ''Categories'' alpha ''Others'' '''' '''' 14 90)
       = Inr (PiePlot 0
           \<lparr>pie_data = [(Str ''Others'', 5), (Str ''B'', 45), (Str ''A'', 50)],
            pie_autopct = ''%1.1f%%'', pie_title = ''Categories'', pie_xlabel = '''',
            pie_ylabel = '''', pie_fontsize = 14, pie_startangle = 90\<rparr>)
   \<and> set [(Str ''Others'', 5), (Str ''B'', 45), (Str ''A'', 50)]
       = (\<lambda>L. (L, length (filter
                   (\<lambda>k. expected_label exact_divide (present scenario_column) alpha ''Others'' k = L)
                   (present scenario_column))))
           ` expected_label exact_divide (present scenario_column) alpha ''Others''
           ` set (present scenario_column)"
proof -
  have h1: "getitem (frames scenario_world ! 0) ''category'' = Inr scenario_column"
    by (simp add: scenario_world_def scenario_table_def getitem_def)
  have h2: "''category'' \<noteq> ''sizes''" and h3: "''category'' \<noteq> ''perc''"
    by simp_all
  have h4: "present scenario_column \<noteq> []"
    by code_simp
  have run: "snd (create_pie_chart_with_grouped_threshold exact_divide scenario_world 0
                    ''category'' 0 ''Categories'' alpha ''Others'' '''' '''' 14 90)
       = Inr (PiePlot 0
           \<lparr>pie_data = [(Str ''Others'', 5), (Str ''B'', 45), (Str ''A'', 50)],
            pie_autopct = ''%1.1f%%'', pie_title = ''Categories'', pie_xlabel = '''',
            pie_ylabel = '''', pie_fontsize = 14, pie_startangle = 90\<rparr>)"
    by code_simp
  from grouper_relabels_and_sorts [OF h1 h2 h3 h4, of exact_divide 0 "''Categories''" alpha
      "''Others''" "''''" "''''" 14 90]
  obtain groups where
    g: "snd (create_pie_chart_with_grouped_threshold exact_divide scenario_world 0
               ''category'' 0 ''Categories'' alpha ''Others'' '''' '''' 14 90)
          = Inr (PiePlot 0
              \<lparr>pie_data = groups, pie_autopct = ''%1.1f%%'', pie_title = ''Categories'',
               pie_xlabel = '''', pie_ylabel = '''', pie_fontsize = 14, pie_startangle = 90\<rparr>)"
    and s: "set groups
       = (\<lambda>L. (L, length (filter
                   (\<lambda>k. expected_label exact_divide (present scenario_column) alpha ''Others'' k = L)
                   (present scenario_column))))
           ` expected_label exact_divide (present scenario_column) alpha ''Others''
           ` set (present scenario_column)"
    by blast
  from g run have "groups = [(Str ''Others'', 5), (Str ''B'', 45), (Str ''A'', 50)]"
    by simp
  with s h1 h2 h3 h4 run show ?thesis by simp
qed

text \<open>
  Claim C3 as stated takes the fraction of the total row count. In a table of five rows,
  two of them without a category, category A has one row: a fifth of the table, below
  the threshold 1/4. It keeps its label, because it has a third of the three rows that
  have a category.
\<close>

theorem grouper_total_rows_counterexample:
  "nrows missing_table = 5
   \<and> label_by_fraction exact_divide (nrows missing_table) (present missing_column)
         (Finite (1 / 4)) ''Others'' (Str ''A'') = Str ''Others''
   \<and> snd (create_pie_chart_with_grouped_threshold exact_divide missing_world 0 ''category'' 0
            ''Categories'' (Finite (1 / 4)) ''Others'' '''' '''' 14 90)
       = Inr (PiePlot 0
           \<lparr>pie_data = [(Str ''A'', 1), (Str ''B'', 2)],
            pie_autopct = ''%1.1f%%'', pie_title = ''Categories'', pie_xlabel = '''',
            pie_ylabel = '''', pie_fontsize = 14, pie_startangle = 90\<rparr>)"
  by code_simp

text \<open>
  Claim C5, as the code has it. For a table with at least one row that has a category,
  and a category column not named \<^verbatim>\<open>sizes\<close> or \<^verbatim>\<open>perc\<close>:
  \<^item> the counts of the groups add up to the number of rows that have a category, and
    their fractions of that number, taken exactly, sum to 1;
  \<^item> every row that has a category is counted in exactly one group, the group of its
    final label;
  \<^item> a group other than the catch-all group has a fraction that is not below
    \<open>threshold\<close>.
\<close>

theorem grouper_partitions_rows:
  assumes "getitem (frames w ! input_df) column_name = Inr c"
    and "column_name \<noteq> ''sizes''" and "column_name \<noteq> ''perc''"
    and "present c \<noteq> []"
  shows "\<exists>groups.
           snd (create_pie_chart_with_grouped_threshold true_divide w input_df column_name ax
                  title threshold grouped_label x_label y_label font_size start_angle)
             = Inr (PiePlot ax
                 \<lparr>pie_data = groups, pie_autopct = ''%1.1f%%'', pie_title = title,
                  pie_xlabel = x_label, pie_ylabel = y_label, pie_fontsize = font_size,
                  pie_startangle = start_angle\<rparr>)
         \<and> sum_list (map snd groups) = length (present c)
         \<and> (\<Sum>(l, n)\<leftarrow>groups. real n / real (length (present c))) = 1
         \<and> (\<forall>k\<in>set (present c).
               \<exists>!g. g \<in> set groups
                    \<and> fst g = expected_label true_divide (present c) threshold grouped_label k)
         \<and> (\<forall>(l, n)\<in>set groups.
               l \<noteq> Str grouped_label \<longrightarrow>
               \<not> float_lt (true_divide n (length (present c))) threshold)"
proof -
  let ?ks = "present c"
  let ?rc = "expected_counts true_divide ?ks threshold grouped_label"
  let ?groups = "sort_key snd ?rc"
  have total: "sum_list (map snd ?groups) = length ?ks"
    by (simp add: sum_list_sort_key sum_expected_counts)
  have pos: "0 < length ?ks" using assms(4) by simp
  have fractions: "(\<Sum>(l, n)\<leftarrow>?groups. real n / real (length ?ks)) = 1"
    using total pos by (rule fractions_sum)
  have inj: "inj_on fst (set ?groups)"
    using distinct_expected_counts [of true_divide ?ks threshold grouped_label]
    by (simp add: distinct_map)
  have one: "\<exists>!g. g \<in> set ?groups
               \<and> fst g = expected_label true_divide ?ks threshold grouped_label k"
    if "k \<in> set ?ks" for k
  proof -
    have "\<exists>g. g \<in> set ?groups \<and> fst g = expected_label true_divide ?ks threshold grouped_label k"
      using that by (auto simp: set_expected_counts)
    then obtain g where g: "g \<in> set ?groups"
      "fst g = expected_label true_divide ?ks threshold grouped_label k"
      by blast
    show ?thesis
    proof (rule ex1I [of _ g])
      show "g \<in> set ?groups \<and> fst g = expected_label true_divide ?ks threshold grouped_label k"
        using g by simp
    next
      fix h
      assume "h \<in> set ?groups \<and> fst h = expected_label true_divide ?ks threshold grouped_label k"
      then show "h = g" using g inj_onD [OF inj, of h g] by simp
    qed
  qed
  have kept: "\<forall>(l, n)\<in>set ?groups.
                l \<noteq> Str grouped_label \<longrightarrow> \<not> float_lt (true_divide n (length ?ks)) threshold"
    using kept_group [of _ _ true_divide ?ks threshold grouped_label] by auto
  show ?thesis
    unfolding grouper_plots [OF assms]
    using total fractions one kept by (intro exI [of _ ?groups]) simp
qed

text \<open>Three of five rows have a category; with threshold 0.4 category A is merged.\<close>

theorem grouper_partitions_rows_witness:
  "getitem (frames missing_world ! 0) ''category'' = Inr missing_column
   \<and> ''category'' \<noteq> ''sizes'' \<and> ''category'' \<noteq> ''perc''
   \<and> present missing_column \<noteq> []
   \<and> snd (create_pie_chart_with_grouped_threshold exact_divide missing_world 0 ''category'' 0
            ''Categories'' (Finite (2 / 5)) ''Others'' '''' '''' 14 90)
       = Inr (PiePlot 0
           \<lparr>pie_data = [(Str ''Others'', 1), (Str ''B'', 2)],
            pie_autopct = ''%1.1f%%'', pie_title = ''Categories'', pie_xlabel = '''',
            pie_ylabel = '''', pie_fontsize = 14, pie_startangle = 90\<rparr>)
   \<and> sum_list (map snd [(Str ''Others'', 1 :: nat), (Str ''B'', 2)]) = length (present missing_column)
   \<and> (\<Sum>(l, n)\<leftarrow>[(Str ''Others'', 1 :: nat), (Str ''B'', 2)].
         real n / real (length (present missing_column))) = 1"
proof -
  have h1: "getitem (frames missing_world ! 0) ''category'' = Inr missing_column"
    by (simp add: missing_world_def missing_table_def getitem_def)
  have h2: "''category'' \<noteq> ''sizes''" and h3: "''category'' \<noteq> ''perc''"
    by simp_all
  have h4: "present missing_column \<noteq> []"
    by code_simp
  have run: "snd (create_pie_chart_with_grouped_threshold exact_divide missing_world 0
                    ''category'' 0 ''Categories'' (Finite (2 / 5)) ''Others'' '''' '''' 14 90)
       = Inr (PiePlot 0
           \<lparr>pie_data = [(Str ''Others'', 1), (Str ''B'', 2)],
            pie_autopct = ''%1.1f%%'', pie_title = ''Categories'', pie_xlabel = '''',
            pie_ylabel = '''', pie_fontsize = 14, pie_startangle = 90\<rparr>)"
    by code_simp
  from grouper_partitions_rows [OF h1 h2 h3 h4, of exact_divide 0 "''Categories''"
      "Finite (2 / 5)" "''Others''" "''''" "''''" 14 90]
  obtain groups where
    g: "snd (create_pie_chart_with_grouped_threshold exact_divide missing_world 0
               ''category'' 0 ''Categories'' (Finite (2 / 5)) ''Others'' '''' '''' 14 90)
          = Inr (PiePlot 0
              \<lparr>pie_data = groups, pie_autopct = ''%1.1f%%'', pie_title = ''Categories'',
               pie_xlabel = '''', pie_ylabel = '''', pie_fontsize = 14, pie_startangle = 90\<rparr>)"
    and t: "sum_list (map snd groups) = length (present missing_column)"
    and f: "(\<Sum>(l, n)\<leftarrow>groups. real n / real (length (present missing_column))) = 1"
    by blast
  from g run have "groups = [(Str ''Others'', 1), (Str ''B'', 2)]"
    by simp
  with t f h1 h2 h3 h4 run show ?thesis by simp
qed

text \<open>
  Claim C5 as stated counts every row of a non-empty table in a group. The rows without
  a category are in no group: the table has five rows and the group counts add up to
  three.
\<close>

theorem grouper_partition_counterexample:
  "nrows missing_table = 5
   \<and> snd (create_pie_chart_with_grouped_threshold exact_divide missing_world 0 ''category'' 0
            ''Categories'' (Finite (1 / 100)) ''Others'' '''' '''' 14 90)
       = Inr (PiePlot 0
           \<lparr>pie_data = [(Str ''A'', 1), (Str ''B'', 2)],
            pie_autopct = ''%1.1f%%'', pie_title = ''Categories'', pie_xlabel = '''',
            pie_ylabel = '''', pie_fontsize = 14, pie_startangle = 90\<rparr>)
   \<and> sum_list (map snd [(Str ''A'', 1 :: nat), (Str ''B'', 2)]) \<noteq> nrows missing_table"
  by code_simp

text \<open>
  Claim C6, as the code has it. For a table with zero rows that has the category
  column, the function makes no pie plot: it removes the axes, returns normally, and
  leaves the state as it was.
\<close>

theorem grouper_zero_rows:
  assumes "wf_frame (frames w ! input_df)"
    and "nrows (frames w ! input_df) = 0"
    and "column_name \<in> set (columns (frames w ! input_df))"
  shows "create_pie_chart_with_grouped_threshold true_divide w input_df column_name ax title
           threshold grouped_label x_label y_label font_size start_angle
         = (w, Inr (AxesRemove ax))"
proof -
  from getitem_column [OF assms(3)] obtain c
    where c: "map_of (frames w ! input_df) column_name = Some c"
      "getitem (frames w ! input_df) column_name = Inr c"
    by blast
  have "column_length c = 0"
    using wf_frame_column_length [OF assms(1) c(1)] assms(2) by simp
  then have "present c = []" by (rule present_length_0)
  with c(2) show ?thesis by (rule grouper_removes)
qed

text \<open>A table of two columns and no rows.\<close>

theorem grouper_zero_rows_witness:
  "wf_frame (frames empty_world ! 0) \<and> nrows (frames empty_world ! 0) = 0
   \<and> ''category'' \<in> set (columns (frames empty_world ! 0))
   \<and> create_pie_chart_with_grouped_threshold exact_divide empty_world 0 ''category'' 0
        ''Categories'' (Finite (1 / 100)) ''Others'' '''' '''' 14 90
       = (empty_world, Inr (AxesRemove 0))"
proof -
  have h1: "wf_frame (frames empty_world ! 0)"
    by (simp add: empty_world_def empty_table_def wf_frame_def columns_def column_length_def)
  have h2: "nrows (frames empty_world ! 0) = 0"
    by (simp add: empty_world_def empty_table_def column_length_def)
  have h3: "''category'' \<in> set (columns (frames empty_world ! 0))"
    by (simp add: empty_world_def empty_table_def columns_def)
  show ?thesis
    using h1 h2 h3
      grouper_zero_rows [OF h1 h2 h3, of exact_divide 0 "''Categories''" "Finite (1 / 100)"
        "''Others''" "''''" "''''" 14 90]
    by simp
qed

text \<open>
  Claim C6 as stated is about every table with zero rows. The group-by runs before the
  test for an empty result, and on a table with zero rows that has no column of the
  given name it raises \<^verbatim>\<open>KeyError\<close>: the function does not return normally.
\<close>

theorem grouper_zero_rows_counterexample:
  "wf_frame (frames no_category_world ! 0)
   \<and> nrows (frames no_category_world ! 0) = 0
   \<and> create_pie_chart_with_grouped_threshold exact_divide no_category_world 0 ''category'' 0
        ''Categories'' (Finite (1 / 100)) ''Others'' '''' '''' 14 90
       = (no_category_world, Inl (KeyError ''category''))"
  by code_simp

text \<open>
  Claim C10. When the table has rows and every row of the category column is missing,
  the grouped table is empty and the function removes the axes. In general the axes are
  removed exactly when the grouped table is empty, whatever the number of rows of the
  input table.
\<close>

theorem grouper_all_missing:
  assumes "getitem (frames w ! input_df) column_name = Inr c"
  shows "(0 < column_length c \<and> all_missing c \<longrightarrow>
            groupby_size c = []
          \<and> create_pie_chart_with_grouped_threshold true_divide w input_df column_name ax
              title threshold grouped_label x_label y_label font_size start_angle
            = (w, Inr (AxesRemove ax)))
       \<and> (snd (create_pie_chart_with_grouped_threshold true_divide w input_df column_name ax
                 title threshold grouped_label x_label y_label font_size start_angle)
            = Inr (AxesRemove ax)
          \<longleftrightarrow> groupby_size c = [])"
proof -
  have "groupby_size c = [] \<longleftrightarrow> present c = []" by (rule groupby_size_eq_Nil)
  then show ?thesis
    using grouper_removes [OF assms] grouper_not_removes [OF assms] present_Nil_iff [of c]
    by (metis snd_conv)
qed

text \<open>A table of two rows, both without a category.\<close>

theorem grouper_all_missing_witness:
  "getitem (frames all_missing_world ! 0) ''category'' = Inr (ObjCol [None, None])
   \<and> 0 < column_length (ObjCol [None, None]) \<and> all_missing (ObjCol [None, None])
   \<and> 0 < nrows (frames all_missing_world ! 0)
   \<and> groupby_size (ObjCol [None, None]) = []
   \<and> create_pie_chart_with_grouped_threshold exact_divide all_missing_world 0 ''category'' 0
        ''Categories'' (Finite (1 / 100)) ''Others'' '''' '''' 14 90
       = (all_missing_world, Inr (AxesRemove 0))"
proof -
  have h1: "getitem (frames all_missing_world ! 0) ''category'' = Inr (ObjCol [None, None])"
    by (simp add: all_missing_world_def all_missing_table_def getitem_def)
  have h2: "0 < column_length (ObjCol [None, None]) \<and> all_missing (ObjCol [None, None])"
    by (simp add: column_length_def all_missing_def)
  have h3: "0 < nrows (frames all_missing_world ! 0)"
    by (simp add: all_missing_world_def all_missing_table_def column_length_def)
  show ?thesis
    using h1 h2 h3
      grouper_all_missing [OF h1, of exact_divide 0 "''Categories''" "Finite (1 / 100)"
        "''Others''" "''''" "''''" 14 90]
    by blast
qed

text \<open>
  The two names left out above. With the category column named \<^verbatim>\<open>perc\<close> the labels of
  the plot are the fractions, and categories of equal fraction are merged; with the
  category column named \<^verbatim>\<open>sizes\<close> the function raises.
\<close>

lemma perc_column_example:
  "snd (create_pie_chart_with_grouped_threshold exact_divide perc_world 0 ''perc'' 0
          ''Categories'' (Finite (1 / 100)) ''Others'' '''' '''' 14 90)
     = Inr (PiePlot 0
         \<lparr>pie_data = [(Num (Finite (1 / 2)), 2)],
          pie_autopct = ''%1.1f%%'', pie_title = ''Categories'', pie_xlabel = '''',
          pie_ylabel = '''', pie_fontsize = 14, pie_startangle = 90\<rparr>)"
  by code_simp

lemma sizes_column_example:
  "snd (create_pie_chart_with_grouped_threshold exact_divide sizes_world 0 ''sizes'' 0
          ''Categories'' (Finite (1 / 100)) ''Others'' '''' '''' 14 90)
     = Inl TypeError"
  by code_simp

section \<open>Properties of plot_measuring_points, and the tables after a call\<close>

lemma map_of_setitem:
  "map_of (setitem df name c) k = (if k = name then Some c else map_of df k)"
  by (induction df name c rule: setitem.induct) auto

lemma columns_setitem: "set (columns (setitem df name c)) = insert name (set (columns df))"
  by (induction df name c rule: setitem.induct) (auto simp: columns_def)

lemma getitem_absent: "name \<notin> set (columns df) \<Longrightarrow> getitem df name = Inl (KeyError name)"
  by (simp add: getitem_def columns_def map_of_eq_None_iff [THEN iffD2])

lemma getitem_present: "map_of df name = Some c \<Longrightarrow> getitem df name = Inr c"
  by (simp add: getitem_def)

lemma frames_set_frame:
  "length (frames (set_frame w r df)) = length (frames w)"
  "r < length (frames w) \<Longrightarrow> frames (set_frame w r df) ! r = df"
  "r' \<noteq> r \<Longrightarrow> frames (set_frame w r df) ! r' = frames w ! r'"
  by (simp_all add: set_frame_def)

lemma assign_coordinate_cases:
  "(\<exists>e. assign_coordinate to_float w df coordinates_column target i = (w, Inl e))
   \<or> (\<exists>ys. assign_coordinate to_float w df coordinates_column target i
          = (set_frame w df (setitem (frames w ! df) target (FloatCol ys)), Inr ()))"
  by (auto simp: assign_coordinate_def split: sum.splits)

lemma assign_coordinate_frames:
  assumes "assign_coordinate to_float w df coordinates_column target i = (w', r)"
    and "df < length (frames w)"
  shows "length (frames w') = length (frames w)"
    and "r' \<noteq> df \<Longrightarrow> frames w' ! r' = frames w ! r'"
    and "name \<noteq> target \<Longrightarrow> map_of (frames w' ! df) name = map_of (frames w ! df) name"
    and "set (columns (frames w ! df)) \<subseteq> set (columns (frames w' ! df))"
    and "set (columns (frames w' ! df)) \<subseteq> insert target (set (columns (frames w ! df)))"
    and "r = Inr () \<Longrightarrow> target \<in> set (columns (frames w' ! df))"
  using assms assign_coordinate_cases [of to_float w df coordinates_column target i]
  by (auto simp: frames_set_frame map_of_setitem columns_setitem)

lemma assign_lat_lon_frames:
  assumes "assign_lat_lon to_float w df coordinates_column = (w', r)"
    and "df < length (frames w)"
  shows "length (frames w') = length (frames w)"
    and "r' \<noteq> df \<Longrightarrow> frames w' ! r' = frames w ! r'"
    and "name \<noteq> ''lat'' \<Longrightarrow> name \<noteq> ''lon'' \<Longrightarrow>
         map_of (frames w' ! df) name = map_of (frames w ! df) name"
    and "set (columns (frames w' ! df)) \<subseteq> {''lat'', ''lon''} \<union> set (columns (frames w ! df))"
    and "r = Inr () \<Longrightarrow> {''lat'', ''lon''} \<subseteq> set (columns (frames w' ! df))"
proof -
  obtain w1 r1 where a1: "assign_coordinate to_float w df coordinates_column ''lat'' 0 = (w1, r1)"
    by (cases "assign_coordinate to_float w df coordinates_column ''lat'' 0")
  note f1 = assign_coordinate_frames [OF a1 assms(2)]
  have len1: "df < length (frames w1)" using f1(1) assms(2) by simp
  have all: "length (frames w') = length (frames w)
      \<and> (r' \<noteq> df \<longrightarrow> frames w' ! r' = frames w ! r')
      \<and> (name \<noteq> ''lat'' \<longrightarrow> name \<noteq> ''lon'' \<longrightarrow>
           map_of (frames w' ! df) name = map_of (frames w ! df) name)
      \<and> set (columns (frames w' ! df)) \<subseteq> {''lat'', ''lon''} \<union> set (columns (frames w ! df))
      \<and> (r = Inr () \<longrightarrow> {''lat'', ''lon''} \<subseteq> set (columns (frames w' ! df)))"
  proof (cases r1)
    case (Inl e)
    then have "w' = w1" "r = Inl e"
      using assms(1) a1 by (simp_all add: assign_lat_lon_def)
    then show ?thesis using f1 by auto
  next
    case (Inr u)
    then have a2: "assign_coordinate to_float w1 df coordinates_column ''lon'' 1 = (w', r)"
      using assms(1) a1 by (simp add: assign_lat_lon_def)
    note f2 = assign_coordinate_frames [OF a2 len1]
    have "length (frames w') = length (frames w)" using f1(1) f2(1) by simp
    moreover have "r' \<noteq> df \<longrightarrow> frames w' ! r' = frames w ! r'" using f1(2) f2(2) by simp
    moreover have "name \<noteq> ''lat'' \<longrightarrow> name \<noteq> ''lon'' \<longrightarrow>
         map_of (frames w' ! df) name = map_of (frames w ! df) name"
      using f1(3) f2(3) by simp
    moreover have "set (columns (frames w' ! df))
        \<subseteq> {''lat'', ''lon''} \<union> set (columns (frames w ! df))"
      using f1(5) f2(5) by auto
    moreover have "r = Inr () \<longrightarrow> {''lat'', ''lon''} \<subseteq> set (columns (frames w' ! df))"
      using f1(6) f2(4) f2(6) Inr by auto
    ultimately show ?thesis by blast
  qed
  show "length (frames w') = length (frames w)" using all by blast
  show "r' \<noteq> df \<Longrightarrow> frames w' ! r' = frames w ! r'" using all by blast
  show "name \<noteq> ''lat'' \<Longrightarrow> name \<noteq> ''lon'' \<Longrightarrow>
         map_of (frames w' ! df) name = map_of (frames w ! df) name"
    using all by blast
  show "set (columns (frames w' ! df)) \<subseteq> {''lat'', ''lon''} \<union> set (columns (frames w ! df))"
    using all by blast
  show "r = Inr () \<Longrightarrow> {''lat'', ''lon''} \<subseteq> set (columns (frames w' ! df))"
    using all by blast
qed

lemma label_and_show_frames:
  assumes "label_and_show w df ids color_column = (w', r)" and "df < length (frames w)"
  shows "length (frames w') = length (frames w)"
    and "r' \<noteq> df \<Longrightarrow> frames w' ! r' = frames w ! r'"
    and "name \<noteq> ''text'' \<Longrightarrow> map_of (frames w' ! df) name = map_of (frames w ! df) name"
  using assms
  by (auto simp: label_and_show_def Let_def frames_set_frame map_of_setitem split: sum.splits)

lemma run_adfuller_test_frames:
  "frames (fst (run_adfuller_test adfuller repr_float w timeseries auto_lag)) = frames w"
  by (simp add: run_adfuller_test_def Let_def split: sum.splits)

lemma run_kpss_test_frames:
  "frames (fst (run_kpss_test kpss repr_series w timeseries regression)) = frames w"
  by (simp add: run_kpss_test_def Let_def split: sum.splits)

lemma grouper_world:
  "fst (create_pie_chart_with_grouped_threshold true_divide w input_df column_name ax title
          threshold grouped_label x_label y_label font_size start_angle) = w"
  by (simp add: create_pie_chart_with_grouped_threshold_def Let_def split: sum.splits)

lemma heat_map_world:
  "fst (plot_correlation_heat_map corr w input_df title color_map fig_size correlation_method) = w"
  by (simp add: plot_correlation_heat_map_def Let_def split: sum.splits)

lemma lookup_fallback:
  assumes "''id'' \<notin> set (columns df)"
  shows "lookup_measuring_point_ids df = getitem df ''measuring_point_id''"
  using getitem_absent [OF assms] by (simp add: lookup_measuring_point_ids_def)

lemma plot_measuring_points_raise:
  assumes "assign_lat_lon to_float w df coordinates_column = (w1, r1)"
    and "r1 = Inl e \<or> (r1 = Inr () \<and> lookup_measuring_point_ids (frames w1 ! df) = Inl e)"
  shows "plot_measuring_points to_float w df coordinates_column color_column = (w1, Inl e)"
  using assms by (auto simp: plot_measuring_points_def)

lemma plot_measuring_points_continue:
  assumes "assign_lat_lon to_float w df coordinates_column = (w1, Inr ())"
    and "lookup_measuring_point_ids (frames w1 ! df) = Inr ids"
  shows "plot_measuring_points to_float w df coordinates_column color_column
           = label_and_show w1 df ids color_column"
  using assms by (simp add: plot_measuring_points_def)

lemma label_and_show_text:
  assumes "label_and_show w df ids color_column = (w', Inr call)" and "df < length (frames w)"
  shows "set (columns (frames w' ! df)) = insert ''text'' (set (columns (frames w ! df)))"
proof -
  from assms(1) obtain hover where "w' = set_frame w df (setitem (frames w ! df) ''text'' hover)"
    by (auto simp: label_and_show_def Let_def split: sum.splits)
  then show ?thesis using assms(2) by (simp add: frames_set_frame columns_setitem)
qed

lemma plot_measuring_points_frames:
  assumes "df < length (frames w)"
  shows "length (frames (fst (plot_measuring_points to_float w df coordinates_column color_column)))
           = length (frames w)"
    and "r \<noteq> df \<Longrightarrow>
         frames (fst (plot_measuring_points to_float w df coordinates_column color_column)) ! r
           = frames w ! r"
    and "name \<notin> {''lat'', ''lon'', ''text''} \<Longrightarrow>
         map_of (frames (fst (plot_measuring_points to_float w df coordinates_column color_column))
                   ! df) name
           = map_of (frames w ! df) name"
    and "snd (plot_measuring_points to_float w df coordinates_column color_column) = Inr call \<Longrightarrow>
         {''lat'', ''lon'', ''text''}
           \<subseteq> set (columns (frames (fst (plot_measuring_points to_float w df coordinates_column
                                           color_column)) ! df))"
proof -
  obtain w1 r1 where al: "assign_lat_lon to_float w df coordinates_column = (w1, r1)"
    by (cases "assign_lat_lon to_float w df coordinates_column")
  note f1 = assign_lat_lon_frames [OF al assms]
  have len1: "df < length (frames w1)" using f1(1) assms by simp
  let ?p = "plot_measuring_points to_float w df coordinates_column color_column"
  have raised: "length (frames (fst ?p)) = length (frames w)
      \<and> (r \<noteq> df \<longrightarrow> frames (fst ?p) ! r = frames w ! r)
      \<and> (name \<notin> {''lat'', ''lon'', ''text''} \<longrightarrow>
           map_of (frames (fst ?p) ! df) name = map_of (frames w ! df) name)
      \<and> (snd ?p = Inr call \<longrightarrow> {''lat'', ''lon'', ''text''} \<subseteq> set (columns (frames (fst ?p) ! df)))"
    if "?p = (w1, Inl e)" for e
  proof -
    have "fst ?p = w1" and "snd ?p = Inl e" using that by simp_all
    then show ?thesis using f1(1) f1(2) f1(3) by simp
  qed
  have all: "length (frames (fst ?p)) = length (frames w)
      \<and> (r \<noteq> df \<longrightarrow> frames (fst ?p) ! r = frames w ! r)
      \<and> (name \<notin> {''lat'', ''lon'', ''text''} \<longrightarrow>
           map_of (frames (fst ?p) ! df) name = map_of (frames w ! df) name)
      \<and> (snd ?p = Inr call \<longrightarrow> {''lat'', ''lon'', ''text''} \<subseteq> set (columns (frames (fst ?p) ! df)))"
  proof (cases r1)
    case (Inl e)
    then show ?thesis using raised plot_measuring_points_raise [OF al] by blast
  next
    case (Inr u)
    then have r1: "r1 = Inr ()" by simp
    show ?thesis
    proof (cases "lookup_measuring_point_ids (frames w1 ! df)")
      case (Inl e)
      then show ?thesis using raised plot_measuring_points_raise [OF al] r1 by blast
    next
      case (Inr ids)
      have p: "?p = label_and_show w1 df ids color_column"
        using al r1 Inr plot_measuring_points_continue by simp
      obtain w2 r2 where ls: "label_and_show w1 df ids color_column = (w2, r2)"
        by (cases "label_and_show w1 df ids color_column")
      note f2 = label_and_show_frames [OF ls len1]
      have "length (frames w2) = length (frames w)" using f1(1) f2(1) by simp
      moreover have "r \<noteq> df \<longrightarrow> frames w2 ! r = frames w ! r" using f1(2) f2(2) by simp
      moreover have "name \<notin> {''lat'', ''lon'', ''text''} \<longrightarrow>
          map_of (frames w2 ! df) name = map_of (frames w ! df) name"
        using f1(3) f2(3) by simp
      moreover have "r2 = Inr call \<longrightarrow>
          {''lat'', ''lon'', ''text''} \<subseteq> set (columns (frames w2 ! df))"
      proof
        assume "r2 = Inr call"
        then have "set (columns (frames w2 ! df)) = insert ''text'' (set (columns (frames w1 ! df)))"
          using ls label_and_show_text [of w1 df ids color_column w2 call] len1 by simp
        then show "{''lat'', ''lon'', ''text''} \<subseteq> set (columns (frames w2 ! df))"
          using f1(5) r1 by auto
      qed
      ultimately show ?thesis using p ls by simp
    qed
  qed
  show "length (frames (fst ?p)) = length (frames w)" using all by blast
  show "r \<noteq> df \<Longrightarrow> frames (fst ?p) ! r = frames w ! r" using all by blast
  show "name \<notin> {''lat'', ''lon'', ''text''} \<Longrightarrow>
        map_of (frames (fst ?p) ! df) name = map_of (frames w ! df) name"
    using all by blast
  show "snd ?p = Inr call \<Longrightarrow> {''lat'', ''lon'', ''text''} \<subseteq> set (columns (frames (fst ?p) ! df))"
    using all by blast
qed

text \<open>
  Claim C7, as the code has it. For a table with neither an \<^verbatim>\<open>id\<close> nor a
  \<^verbatim>\<open>measuring_point_id\<close> column, \<open>plot_measuring_points\<close> raises and never reaches the
  map. The exception is the \<^verbatim>\<open>KeyError\<close> that names \<^verbatim>\<open>measuring_point_id\<close> when the two
  coordinate columns have been assigned; when one of these assignments raises, its
  exception is the one the function raises. When \<^verbatim>\<open>id\<close> is absent,
  \<^verbatim>\<open>measuring_point_id\<close> is present and the coordinate columns have been assigned, that
  column is the identifier from which the hover text is built.
\<close>

theorem plot_measuring_points_identifier:
  assumes "df < length (frames w)"
    and "''id'' \<notin> set (columns (frames w ! df))"
  shows "(''measuring_point_id'' \<notin> set (columns (frames w ! df)) \<longrightarrow>
            (\<exists>e. snd (plot_measuring_points to_float w df coordinates_column color_column) = Inl e)
          \<and> (snd (assign_lat_lon to_float w df coordinates_column) = Inr () \<longrightarrow>
               snd (plot_measuring_points to_float w df coordinates_column color_column)
                 = Inl (KeyError ''measuring_point_id'')))
       \<and> (\<forall>ids. map_of (frames w ! df) ''measuring_point_id'' = Some ids \<longrightarrow>
                 snd (assign_lat_lon to_float w df coordinates_column) = Inr () \<longrightarrow>
                 plot_measuring_points to_float w df coordinates_column color_column
                   = label_and_show (fst (assign_lat_lon to_float w df coordinates_column)) df ids
                       color_column)
       \<and> (\<forall>e. snd (assign_lat_lon to_float w df coordinates_column) = Inl e \<longrightarrow>
               snd (plot_measuring_points to_float w df coordinates_column color_column) = Inl e)"
proof -
  obtain w1 r1 where al: "assign_lat_lon to_float w df coordinates_column = (w1, r1)"
    by (cases "assign_lat_lon to_float w df coordinates_column")
  note f1 = assign_lat_lon_frames [OF al assms(1)]
  let ?p = "plot_measuring_points to_float w df coordinates_column color_column"
  have no_id: "''id'' \<notin> set (columns (frames w1 ! df))"
    using f1(4) assms(2) by auto
  have look: "lookup_measuring_point_ids (frames w1 ! df)
                = getitem (frames w1 ! df) ''measuring_point_id''"
    using no_id by (rule lookup_fallback)
  have absent: "(\<exists>e. snd ?p = Inl e)
                \<and> (r1 = Inr () \<longrightarrow> snd ?p = Inl (KeyError ''measuring_point_id''))"
    if "''measuring_point_id'' \<notin> set (columns (frames w ! df))"
  proof -
    have "''measuring_point_id'' \<notin> set (columns (frames w1 ! df))"
      using f1(4) that by auto
    then have l: "lookup_measuring_point_ids (frames w1 ! df)
                    = Inl (KeyError ''measuring_point_id'')"
      using look getitem_absent by simp
    show ?thesis
    proof (cases r1)
      case (Inl e)
      then have "?p = (w1, Inl e)" using plot_measuring_points_raise [OF al] by blast
      then show ?thesis using Inl by simp
    next
      case (Inr u)
      then have "?p = (w1, Inl (KeyError ''measuring_point_id''))"
        using plot_measuring_points_raise [OF al] l by simp
      then show ?thesis by simp
    qed
  qed
  have present: "?p = label_and_show w1 df ids color_column"
    if "map_of (frames w ! df) ''measuring_point_id'' = Some ids" and "r1 = Inr ()" for ids
  proof -
    have "map_of (frames w1 ! df) ''measuring_point_id'' = Some ids"
      using f1(3) [of "''measuring_point_id''"] that(1) by simp
    then have "lookup_measuring_point_ids (frames w1 ! df) = Inr ids"
      using look getitem_present by simp
    then show ?thesis
      using al that(2) plot_measuring_points_continue by simp
  qed
  have failed: "snd ?p = Inl e" if "r1 = Inl e" for e
  proof -
    have "?p = (w1, Inl e)" using plot_measuring_points_raise [OF al] that by blast
    then show ?thesis by simp
  qed
  show ?thesis
    using absent present failed by (simp add: al)
qed

text \<open>
  A table without identifier columns, a table with \<^verbatim>\<open>measuring_point_id\<close> only, whose
  hover texts start with its values, and a table whose second longitude is not a number.
\<close>

theorem plot_measuring_points_identifier_witness:
  "0 < length (frames points_no_id_world)
   \<and> ''id'' \<notin> set (columns (frames points_no_id_world ! 0))
   \<and> ''measuring_point_id'' \<notin> set (columns (frames points_no_id_world ! 0))
   \<and> snd (assign_lat_lon decimal_float points_no_id_world 0 ''coordinates'') = Inr ()
   \<and> snd (plot_measuring_points decimal_float points_no_id_world 0 ''coordinates'' None)
       = Inl (KeyError ''measuring_point_id'')
   \<and> 0 < length (frames points_fallback_world)
   \<and> ''id'' \<notin> set (columns (frames points_fallback_world ! 0))
   \<and> map_of (frames points_fallback_world ! 0) ''measuring_point_id''
       = Some (ObjCol [Some ''m1'', Some ''m2''])
   \<and> snd (assign_lat_lon decimal_float points_fallback_world 0 ''coordinates'') = Inr ()
   \<and> plot_measuring_points decimal_float points_fallback_world 0 ''coordinates'' None
       = label_and_show (fst (assign_lat_lon decimal_float points_fallback_world 0 ''coordinates''))
           0 (ObjCol [Some ''m1'', Some ''m2'']) None
   \<and> map_of (frames (fst (plot_measuring_points decimal_float points_fallback_world 0
                             ''coordinates'' None)) ! 0) ''text''
       = Some (ObjCol [Some ''m1 : north'', Some ''m2 : south''])
   \<and> 0 < length (frames points_bad_world)
   \<and> ''id'' \<notin> set (columns (frames points_bad_world ! 0))
   \<and> snd (assign_lat_lon decimal_float points_bad_world 0 ''coordinates'') = Inl ValueError
   \<and> snd (plot_measuring_points decimal_float points_bad_world 0 ''coordinates'' None)
       = Inl ValueError"
proof -
  have c1: "0 < length (frames points_bad_world)"
    and c2: "''id'' \<notin> set (columns (frames points_bad_world ! 0))"
    by (simp_all add: points_bad_world_def points_bad_table_def columns_def)
  have c3: "snd (assign_lat_lon decimal_float points_bad_world 0 ''coordinates'') = Inl ValueError"
    by code_simp
  have c4: "snd (plot_measuring_points decimal_float points_bad_world 0 ''coordinates'' None)
       = Inl ValueError"
    using plot_measuring_points_identifier [OF c1 c2, of decimal_float "''coordinates''" None]
      c3 by simp
  have a1: "0 < length (frames points_no_id_world)"
    and a2: "''id'' \<notin> set (columns (frames points_no_id_world ! 0))"
    and a3: "''measuring_point_id'' \<notin> set (columns (frames points_no_id_world ! 0))"
    by (simp_all add: points_no_id_world_def points_no_id_table_def columns_def)
  have a4: "snd (assign_lat_lon decimal_float points_no_id_world 0 ''coordinates'') = Inr ()"
    by code_simp
  have a5: "snd (plot_measuring_points decimal_float points_no_id_world 0 ''coordinates'' None)
       = Inl (KeyError ''measuring_point_id'')"
    using plot_measuring_points_identifier [OF a1 a2, of decimal_float "''coordinates''" None]
      a3 a4 by simp
  have b1: "0 < length (frames points_fallback_world)"
    and b2: "''id'' \<notin> set (columns (frames points_fallback_world ! 0))"
    and b3: "map_of (frames points_fallback_world ! 0) ''measuring_point_id''
               = Some (ObjCol [Some ''m1'', Some ''m2''])"
    by (simp_all add: points_fallback_world_def points_fallback_table_def columns_def)
  have b4: "snd (assign_lat_lon decimal_float points_fallback_world 0 ''coordinates'') = Inr ()"
    by code_simp
  have b5: "plot_measuring_points decimal_float points_fallback_world 0 ''coordinates'' None
       = label_and_show (fst (assign_lat_lon decimal_float points_fallback_world 0 ''coordinates''))
           0 (ObjCol [Some ''m1'', Some ''m2'']) None"
    using plot_measuring_points_identifier [OF b1 b2, of decimal_float "''coordinates''" None]
      b3 b4 by simp
  have b6: "map_of (frames (fst (plot_measuring_points decimal_float points_fallback_world 0
                             ''coordinates'' None)) ! 0) ''text''
       = Some (ObjCol [Some ''m1 : north'', Some ''m2 : south''])"
    by code_simp
  show ?thesis
    by (intro conjI a1 a2 a3 a4 a5 b1 b2 b3 b4 b5 b6 c1 c2 c3 c4)
qed

text \<open>
  Claim C7 as stated has a missing-column error for every table with neither identifier
  column. The coordinates are converted first: with the coordinate \<^verbatim>\<open>'41.5,xx'\<close> the
  function raises \<^verbatim>\<open>ValueError\<close> in line 77 and never looks for an identifier column.
\<close>

theorem plot_measuring_points_value_error_counterexample:
  "''id'' \<notin> set (columns (frames points_bad_world ! 0))
   \<and> ''measuring_point_id'' \<notin> set (columns (frames points_bad_world ! 0))
   \<and> snd (plot_measuring_points decimal_float points_bad_world 0 ''coordinates'' None)
       = Inl ValueError
   \<and> Inl ValueError \<noteq> (Inl (KeyError ''measuring_point_id'') :: plot_call result)"
  by code_simp

text \<open>
  Claim C8, as the code has it. The two stationarity tests, the threshold grouper, the
  heat map and the ACF/PACF plot leave every table as it was. \<open>plot_measuring_points\<close>
  writes into the table of the caller: it changes no other table and no column other
  than \<^verbatim>\<open>lat\<close>, \<^verbatim>\<open>lon\<close> and \<^verbatim>\<open>text\<close>, and when it reaches the map these three are
  columns of the caller's table.
\<close>

theorem tables_after_each_function:
  "frames (fst (run_adfuller_test adfuller repr_float w timeseries auto_lag)) = frames w
   \<and> frames (fst (run_kpss_test kpss repr_series w timeseries regression)) = frames w
   \<and> frames (fst (create_pie_chart_with_grouped_threshold true_divide w input_df column_name ax
                     title threshold grouped_label x_label y_label font_size start_angle))
       = frames w
   \<and> frames (fst (plot_correlation_heat_map corr w input_df title color_map fig_size
                     correlation_method)) = frames w
   \<and> frames (fst (plot_acf_pacf w timeseries lags fig_size)) = frames w
   \<and> (df < length (frames w) \<longrightarrow>
        length (frames (fst (plot_measuring_points to_float w df coordinates_column color_column)))
          = length (frames w)
      \<and> (\<forall>r. r \<noteq> df \<longrightarrow>
             frames (fst (plot_measuring_points to_float w df coordinates_column color_column)) ! r
               = frames w ! r)
      \<and> (\<forall>name. name \<notin> {''lat'', ''lon'', ''text''} \<longrightarrow>
             map_of (frames (fst (plot_measuring_points to_float w df coordinates_column
                                    color_column)) ! df) name
               = map_of (frames w ! df) name)
      \<and> (\<forall>call. snd (plot_measuring_points to_float w df coordinates_column color_column)
                   = Inr call \<longrightarrow>
             {''lat'', ''lon'', ''text''}
               \<subseteq> set (columns (frames (fst (plot_measuring_points to_float w df
                                               coordinates_column color_column)) ! df))))"
proof -
  have "frames (fst (plot_acf_pacf w timeseries lags fig_size)) = frames w"
    by (simp add: plot_acf_pacf_def)
  then show ?thesis
    using run_adfuller_test_frames [of adfuller repr_float w timeseries auto_lag]
      run_kpss_test_frames [of kpss repr_series w timeseries regression]
      plot_measuring_points_frames [where df = df and w = w and to_float = to_float
        and coordinates_column = coordinates_column and color_column = color_column]
    by (simp add: grouper_world heat_map_world)
qed

text \<open>The \<^verbatim>\<open>id\<close> column of the measuring points is the same after the call.\<close>

theorem tables_after_each_function_witness:
  "0 < length (frames points_world)
   \<and> ''id'' \<notin> {''lat'', ''lon'', ''text''}
   \<and> map_of (frames (fst (plot_measuring_points decimal_float points_world 0 ''coordinates''
                             None)) ! 0) ''id''
       = map_of (frames points_world ! 0) ''id''
   \<and> frames (fst (create_pie_chart_with_grouped_threshold exact_divide points_world 0 ''id'' 0
                     ''Points'' (Finite (1 / 100)) ''Others'' '''' '''' 14 90))
       = frames points_world"
proof -
  have h: "0 < length (frames points_world)"
    by (simp add: points_world_def)
  have n: "''id'' \<notin> {''lat'', ''lon'', ''text''}"
    by simp
  note t = tables_after_each_function [where w = points_world and df = 0
      and to_float = decimal_float and coordinates_column = "''coordinates''"
      and color_column = None and true_divide = exact_divide and input_df = 0
      and column_name = "''id''" and ax = 0 and title = "''Points''"
      and threshold = "Finite (1 / 100)" and grouped_label = "''Others''"
      and x_label = "''''" and y_label = "''''" and font_size = 14 and start_angle = 90]
  note t3 = t [THEN conjunct2, THEN conjunct2, THEN conjunct1]
  note t6 = t [THEN conjunct2, THEN conjunct2, THEN conjunct2, THEN conjunct2, THEN conjunct2,
      THEN mp, OF h]
  note t6c = t6 [THEN conjunct2, THEN conjunct2, THEN conjunct1, THEN spec, THEN mp, OF n]
  show ?thesis
    by (intro conjI h n t6c t3)
qed

text \<open>
  Claim C8 as stated has no column added to the caller's table. A table with the columns
  \<^verbatim>\<open>coordinates\<close>, \<^verbatim>\<open>id\<close> and \<^verbatim>\<open>description\<close> has six columns after
  \<open>plot_measuring_points\<close> has returned normally.
\<close>

theorem plot_measuring_points_writes_counterexample:
  "columns (frames points_world ! 0) = [''coordinates'', ''id'', ''description'']
   \<and> snd (plot_measuring_points decimal_float points_world 0 ''coordinates'' None)
       = Inr (ScatterMapbox
           \<lparr>map_data_frame =
              frames (fst (plot_measuring_points decimal_float points_world 0 ''coordinates''
                             None)) ! 0,
            map_lat = ''lat'', map_lon = ''lon'', map_color = None, map_hover_name = ''text'',
            map_zoom = 11, map_height = 600, map_center_lon = 207 / 100,
            map_center_lat = 414 / 10, map_style = ''stamen-terrain''\<rparr>)
   \<and> columns (frames (fst (plot_measuring_points decimal_float points_world 0 ''coordinates''
                             None)) ! 0)
       = [''coordinates'', ''id'', ''description'', ''lat'', ''lon'', ''text'']
   \<and> frames (fst (plot_measuring_points decimal_float points_world 0 ''coordinates'' None)) ! 0
       \<noteq> frames points_world ! 0"
  by code_simp

section \<open>Properties of plot_correlation_heat_map\<close>

lemma rows_triu_ones_like:
  assumes "i < length (rows c)" and "j < length (rows c ! i)"
  shows "rows (triu (ones_like c DBool)) ! i ! j = BoolVal (i \<le> j)"
  using assms
  by (simp add: triu_def ones_like_def dtype_one_def dtype_zero_def nth_enumerate_eq)

lemma shape_triu_ones_like:
  "length (rows (triu (ones_like c d))) = length (rows c)"
  "i < length (rows c) \<Longrightarrow> length (rows (triu (ones_like c d)) ! i) = length (rows c ! i)"
  by (simp_all add: triu_def ones_like_def nth_enumerate_eq)

text \<open>
  Claim C9. Whenever the correlation matrix is computed, the mask handed to the heat
  map has the boolean element type and the shape of the correlation matrix, and its
  entry in row \<open>i\<close> and column \<open>j\<close> is \<^verbatim>\<open>True\<close> exactly when \<open>i \<le> j\<close>: the upper
  triangle with the diagonal.
\<close>

theorem heat_map_mask_boolean_upper_triangular:
  assumes "corr (frames w ! input_df) ''pearson'' = Inr c"
    and "corr (frames w ! input_df) correlation_method = Inr data"
  shows "\<exists>request.
           snd (plot_correlation_heat_map corr w input_df title color_map fig_size
                  correlation_method) = Inr (Heatmap request)
         \<and> dtype (heat_mask request) = DBool
         \<and> length (rows (heat_mask request)) = length (rows c)
         \<and> (\<forall>i<length (rows c).
               length (rows (heat_mask request) ! i) = length (rows c ! i)
             \<and> (\<forall>j<length (rows c ! i). rows (heat_mask request) ! i ! j = BoolVal (i \<le> j)))"
proof -
  let ?mask = "triu (ones_like c DBool)"
  have "dtype ?mask = DBool" by (simp add: triu_def ones_like_def)
  moreover have "length (rows ?mask) = length (rows c)" by (rule shape_triu_ones_like)
  moreover have "\<forall>i<length (rows c).
               length (rows ?mask ! i) = length (rows c ! i)
             \<and> (\<forall>j<length (rows c ! i). rows ?mask ! i ! j = BoolVal (i \<le> j))"
    using rows_triu_ones_like [of _ c] shape_triu_ones_like(2) [of _ c DBool] by blast
  ultimately show ?thesis
    using assms by (simp add: plot_correlation_heat_map_def Let_def)
qed

text \<open>The mask of a correlation matrix of three columns.\<close>

theorem heat_map_mask_boolean_upper_triangular_witness:
  "corr_example (frames points_world ! 0) ''pearson'' = corr_example [] ''pearson''
   \<and> corr_example (frames points_world ! 0) ''spearman'' = corr_example [] ''pearson''
   \<and> (\<exists>c request.
        corr_example [] ''pearson'' = Inr c
      \<and> snd (plot_correlation_heat_map corr_example points_world 0 ''Correlations'' ''BrBG''
               (25, 25) ''spearman'') = Inr (Heatmap request)
      \<and> heat_mask request
          = \<lparr>dtype = DBool,
             rows = [[BoolVal True, BoolVal True, BoolVal True],
                     [BoolVal False, BoolVal True, BoolVal True],
                     [BoolVal False, BoolVal False, BoolVal True]]\<rparr>
      \<and> dtype (heat_mask request) = DBool
      \<and> length (rows (heat_mask request)) = length (rows c))"
proof -
  obtain c where c: "corr_example [] ''pearson'' = Inr c"
    by (simp add: corr_example_def)
  have h1: "corr_example (frames points_world ! 0) ''pearson'' = Inr c"
    and h2: "corr_example (frames points_world ! 0) ''spearman'' = Inr c"
    using c by (simp_all add: corr_example_def)
  from heat_map_mask_boolean_upper_triangular [where corr = corr_example and w = points_world
      and input_df = 0 and correlation_method = "''spearman''" and c = c and data = c
      and title = "''Correlations''" and color_map = "''BrBG''" and fig_size = "(25, 25)",
      OF h1 h2]
  obtain request where
    r: "snd (plot_correlation_heat_map corr_example points_world 0 ''Correlations'' ''BrBG''
               (25, 25) ''spearman'') = Inr (Heatmap request)"
    and d: "dtype (heat_mask request) = DBool"
    and l: "length (rows (heat_mask request)) = length (rows c)"
    by blast
  have "snd (plot_correlation_heat_map corr_example points_world 0 ''Correlations'' ''BrBG''
               (25, 25) ''spearman'')
        = Inr (Heatmap
            \<lparr>heat_figsize = (25, 25),
             heat_data = 
               \<lparr>dtype = DFloat64,
                rows = [[FloatVal (Finite 1), FloatVal (Finite (1 / 2)), FloatVal (Finite 0)],
                  [FloatVal (Finite (1 / 2)), FloatVal (Finite 1), FloatVal (Finite (- 1 / 4))],
                  [FloatVal (Finite 0), FloatVal (Finite (- 1 / 4)), FloatVal (Finite 1)]]\<rparr>,
             heat_mask =
               \<lparr>dtype = DBool,
                rows = [[BoolVal True, BoolVal True, BoolVal True],
                        [BoolVal False, BoolVal True, BoolVal True],
                        [BoolVal False, BoolVal False, BoolVal True]]\<rparr>,
             heat_vmin = - 1, heat_vmax = 1, heat_annot = True, heat_cmap = ''BrBG'',
             heat_title = ''Correlations''\<rparr>)"
    by code_simp
  with r have "heat_mask request
          = \<lparr>dtype = DBool,
             rows = [[BoolVal True, BoolVal True, BoolVal True],
                     [BoolVal False, BoolVal True, BoolVal True],
                     [BoolVal False, BoolVal False, BoolVal True]]\<rparr>"
    by auto
  with r d l c h1 h2 show ?thesis by (metis)
qed

end
